theory Spec2Isabelle
  imports Complex_Main
begin

section \<open>Parameter model of a multirotor vehicle (vehicle.py)\<close>

text \<open>
  The module holds three dataclasses with derived fields: \<open>MotorParams\<close>,
  \<open>PropellerParams\<close> and \<open>VehicleParams\<close>. A dataclass is modelled as a record of its
  declared fields (what \<open>__init__\<close> stores) and \<open>__post_init__\<close> as a function from that
  record to the finished object, a record extended by the derived attributes.

  Python floats are read as real numbers: \<open>np.pi\<close>, \<open>np.sin\<close>, \<open>np.cos\<close> are
  \<^term>\<open>pi\<close>, \<^term>\<open>sin\<close>, \<^term>\<open>cos\<close>, and rounding is not modelled. An optional field
  (default \<open>None\<close>) is an \<open>option\<close>.
\<close>

subsection \<open>Motor and propeller\<close>

record MotorParams =
  k_m :: real
  k_e :: "real option"
  k_q :: "real option"

text \<open>The declared fields of \<open>PropellerParams\<close>, in the order of the class body.\<close>

record PropellerFields =
  moment_of_inertia :: real
  diameter :: real
  pitch :: real
  a :: real
  b :: real
  c :: real
  eta :: real
  k_thrust :: "real option"
  k_torque :: "real option"
  motor :: "MotorParams option"

text \<open>The object after \<open>__post_init__\<close>: the fields and the four derived attributes.\<close>

record PropellerParams = PropellerFields +
  R :: real
  A :: real
  theta0 :: real
  theta1 :: real

text \<open>
  \<open>np.arctan2(y, x)\<close>: the angle of the point \<open>(x, y)\<close> in \<open>(-pi, pi]\<close>, with the
  value 0 at the origin.
\<close>

definition arctan2 :: "real \<Rightarrow> real \<Rightarrow> real" where
  "arctan2 y x =
     (if 0 < x then arctan (y / x)
      else if x < 0 \<and> 0 \<le> y then arctan (y / x) + pi
      else if x < 0 then arctan (y / x) - pi
      else if 0 < y then pi / 2
      else if y < 0 then - (pi / 2)
      else 0)"

text \<open>
  \<open>PropellerParams.__post_init__\<close>. The arithmetic keeps Python's grouping:
  \<open>2 * np.pi * 3/4 * self.diameter/2\<close> is \<open>((((2 * pi) * 3) / 4) * diameter) / 2\<close> and
  \<open>-4 / 3 * t\<close> is \<open>((-4) / 3) * t\<close>. \<open>float(self.moment_of_inertia)\<close> is the identity
  on a real.
\<close>

definition PropellerParams_post_init :: "PropellerFields \<Rightarrow> PropellerParams" where
  "PropellerParams_post_init f =
     (let r = diameter f * 0.0254 in
      PropellerFields.extend f
        (PropellerParams.fields
           r
           (pi * r ^ 2)
           (2 * arctan2 (pitch f) ((((2 * pi) * 3) / 4 * diameter f) / 2))
           (((- 4) / 3) * arctan2 (pitch f) ((((2 * pi) * 3) / 4 * diameter f) / 2))))"

text \<open>The defaults of the class body; only \<open>moment_of_inertia\<close> is required.\<close>

definition PropellerFields_default :: "real \<Rightarrow> PropellerFields" where
  "PropellerFields_default moi =
     \<lparr> moment_of_inertia = moi, diameter = 6, pitch = 3, a = 5.7, b = 2, c = 0.0274,
       eta = 1, k_thrust = None, k_torque = None, motor = None \<rparr>"

text \<open>The formulas of the specification, in its own words, to compare with the code.\<close>

definition spec_blade_angle :: "real \<Rightarrow> real \<Rightarrow> real" where
  "spec_blade_angle d p = arctan2 p (2 * pi * (3 / 4) * d / 2)"

subsection \<open>Numeric library\<close>

text \<open>
  A one-dimensional \<open>np.ndarray\<close> is a list, a two-dimensional one the list of its rows.
  The 3-by-3 inertia matrix is a triple of rows.
\<close>

type_synonym matrix = "real list list"
type_synonym vec3 = "real \<times> real \<times> real"
type_synonym mat3 = "vec3 \<times> vec3 \<times> vec3"

text \<open>
  The exceptions \<open>__post_init__\<close> can end with: \<open>numpy.linalg.LinAlgError\<close> from the
  linear algebra routines, \<open>ValueError\<close> from operands that do not broadcast,
  \<open>IndexError\<close> from an index past the end, \<open>TypeError\<close> from arithmetic on \<open>None\<close>.
  The module defines no exception of its own and has no \<open>raise\<close> statement.
\<close>

datatype error = LinAlgError | ValueError | IndexError | TypeError

text \<open>
  \<open>np.linalg.inv\<close> and \<open>np.linalg.pinv\<close> are the library's LAPACK routines. The model
  takes them as parameters, so that what is proved about construction holds for whatever
  they return or raise.
\<close>

record linalg =
  linalg_inv :: "mat3 \<Rightarrow> error + mat3"
  linalg_pinv :: "matrix \<Rightarrow> error + matrix"

text \<open>
  The element-wise product \<open>u * v\<close> of two one-dimensional arrays, with numpy's
  broadcasting: equal lengths multiply pointwise, a length-1 operand is stretched, any
  other pair of lengths raises \<open>ValueError\<close>.
\<close>

definition np_multiply :: "real list \<Rightarrow> real list \<Rightarrow> error + real list" where
  "np_multiply u v =
     (if length u = length v then Inr (map2 (*) u v)
      else if length u = 1 then Inr (map (\<lambda>t. u ! 0 * t) v)
      else if length v = 1 then Inr (map (\<lambda>s. s * v ! 0) u)
      else Inl ValueError)"

definition np_ones :: "nat \<Rightarrow> int list" where
  "np_ones n = replicate n 1"

definition np_zeros :: "nat \<Rightarrow> nat \<Rightarrow> matrix" where
  "np_zeros rows cols = replicate rows (replicate cols 0)"

text \<open>\<open>xs[start::step] = v\<close>: every index \<open>start + k * step\<close> within the array is set.\<close>

definition slice_assign :: "nat \<Rightarrow> nat \<Rightarrow> 'a \<Rightarrow> 'a list \<Rightarrow> 'a list" where
  "slice_assign start step v xs =
     map (\<lambda>(i, x). if start \<le> i \<and> (i - start) mod step = 0 then v else x) (enumerate 0 xs)"

text \<open>
  \<open>m[r, i] = v\<close>. The loop below writes rows 0 to 3 and a column below the number of
  propellers of a matrix created with that shape, so the index is always in range.
\<close>

definition setitem2 :: "matrix \<Rightarrow> nat \<Rightarrow> nat \<Rightarrow> real \<Rightarrow> matrix" where
  "setitem2 m r i v = m[r := (m ! r)[i := v]]"

subsection \<open>Vehicle\<close>

text \<open>
  The declared fields of \<open>VehicleParams\<close>. \<open>clockwise\<close> is \<open>None\<close> when not supplied;
  \<open>__post_init__\<close> overwrites that same attribute.
\<close>

record VehicleFields =
  propellers :: "PropellerParams list"
  angles :: "real list"
  distances :: "real list"
  clockwise :: "int list option"
  mass :: real
  inertia_matrix :: mat3

record VehicleParams = VehicleFields +
  inertia_matrix_inverse :: mat3
  alloc :: "matrix option"
  alloc_inverse :: "matrix option"

text \<open>
  Lines 85 to 87: \<open>np.ones(n, dtype=int)\<close>, then \<open>[::2] = 1\<close>, then \<open>[1::2] = -1\<close>.
\<close>

definition default_clockwise :: "nat \<Rightarrow> int list" where
  "default_clockwise n = slice_assign 1 2 (- 1) (slice_assign 0 2 1 (np_ones n))"

text \<open>
  The loop of lines 98 to 102 over \<open>enumerate(self.propellers)\<close>, statement by statement.
  \<open>x[i]\<close>, \<open>y[i]\<close> and \<open>self.clockwise[i]\<close> raise \<open>IndexError\<close> past the end; an
  index is evaluated before the product that uses it.
\<close>

fun alloc_loop ::
  "real list \<Rightarrow> real list \<Rightarrow> int list \<Rightarrow> (nat \<times> PropellerParams) list \<Rightarrow> matrix \<Rightarrow> error + matrix"
where
  "alloc_loop x y cw [] al = Inr al"
| "alloc_loop x y cw ((i, p) # ips) al =
     (case k_thrust p of
        None \<Rightarrow> Inl TypeError
      | Some kt \<Rightarrow>
          let al0 = setitem2 al 0 i (- kt) in
          if length x \<le> i then Inl IndexError
          else let al1 = setitem2 al0 1 i (kt * x ! i) in
          if length y \<le> i then Inl IndexError
          else let al2 = setitem2 al1 2 i (kt * y ! i) in
          if length cw \<le> i then Inl IndexError
          else (case k_torque p of
                  None \<Rightarrow> Inl TypeError
                | Some kq \<Rightarrow>
                    alloc_loop x y cw ips (setitem2 al2 3 i (kq * real_of_int (cw ! i)))))"

text \<open>The test of lines 91 to 94.\<close>

definition has_coefficients :: "PropellerParams list \<Rightarrow> bool" where
  "has_coefficients ps \<longleftrightarrow>
     list_all (\<lambda>p. k_thrust p \<noteq> None) ps \<and> list_all (\<lambda>p. k_torque p \<noteq> None) ps"

text \<open>
  Lines 84 to 87: the array \<open>self.clockwise\<close> holds after the default has been applied.
\<close>

definition spin_direction :: "VehicleFields \<Rightarrow> int list" where
  "spin_direction f =
     (case clockwise f of
        None \<Rightarrow> default_clockwise (length (propellers f))
      | Some given \<Rightarrow> given)"

text \<open>
  Lines 95 to 103: the zero matrix, the two broadcast products and the loop.
\<close>

definition allocation_matrix ::
  "real list \<Rightarrow> real list \<Rightarrow> int list \<Rightarrow> PropellerParams list \<Rightarrow> error + matrix"
where
  "allocation_matrix dists angs cw ps =
     (case np_multiply dists (map sin angs) of
        Inl e \<Rightarrow> Inl e
      | Inr x \<Rightarrow>
          (case np_multiply dists (map cos angs) of
             Inl e \<Rightarrow> Inl e
           | Inr y \<Rightarrow> alloc_loop x y cw (enumerate 0 ps) (np_zeros 4 (length ps))))"

text \<open>
  \<open>VehicleParams.__post_init__\<close>, in the order of the source. \<open>astype(float)\<close> is the
  identity on reals. An exception ends the construction: the result is \<open>Inl\<close> and there
  is no object.
\<close>

definition VehicleParams_post_init :: "linalg \<Rightarrow> VehicleFields \<Rightarrow> error + VehicleParams" where
  "VehicleParams_post_init lib f =
     (case linalg_inv lib (inertia_matrix f) of
        Inl e \<Rightarrow> Inl e
      | Inr mi \<Rightarrow>
          let cw = spin_direction f;
              f1 = f\<lparr> clockwise := Some cw \<rparr>
          in
          if has_coefficients (propellers f) then
            (case allocation_matrix (distances f) (angles f) cw (propellers f) of
               Inl e \<Rightarrow> Inl e
             | Inr al \<Rightarrow>
                 (case linalg_pinv lib al of
                    Inl e \<Rightarrow> Inl e
                  | Inr ali \<Rightarrow>
                      Inr (VehicleFields.extend f1
                             (VehicleParams.fields mi (Some al) (Some ali)))))
          else
            Inr (VehicleFields.extend f1 (VehicleParams.fields mi None None)))"

subsection \<open>The library in exact arithmetic\<close>

text \<open>
  An instance of the two routines in exact arithmetic, on which the model is run and
  against which the claims about the routines themselves are settled.
\<close>

definition det3 :: "mat3 \<Rightarrow> real" where
  "det3 m =
     (case m of ((p, q, r), (s, t, u), (v, w, z)) \<Rightarrow>
        p * (t * z - u * w) - q * (s * z - u * v) + r * (s * w - t * v))"

definition adj3 :: "mat3 \<Rightarrow> mat3" where
  "adj3 m =
     (case m of ((p, q, r), (s, t, u), (v, w, z)) \<Rightarrow>
        ((t * z - u * w, r * w - q * z, q * u - r * t),
         (u * v - s * z, p * z - r * v, r * s - p * u),
         (s * w - t * v, q * v - p * w, p * t - q * s)))"

definition div3 :: "mat3 \<Rightarrow> real \<Rightarrow> mat3" where
  "div3 m d =
     (case m of ((p, q, r), (s, t, u), (v, w, z)) \<Rightarrow>
        ((p / d, q / d, r / d), (s / d, t / d, u / d), (v / d, w / d, z / d)))"

text \<open>
  Modelled from the spec: \<open>np.linalg.inv\<close>, the matrix inverse of the numeric library,
  which is not part of the repository. Section 4.2 step 1: it inverts the 3-by-3 inertia
  matrix and fails with an error when the matrix is singular. Here: \<open>LinAlgError\<close>, the
  exception numpy raises, on determinant 0, and the adjugate over the determinant
  otherwise.
\<close>

definition inv3 :: "mat3 \<Rightarrow> error + mat3" where
  "inv3 m = (let d = det3 m in if d = 0 then Inl LinAlgError else Inr (div3 (adj3 m) d))"

definition eye3 :: mat3 where
  "eye3 = ((1, 0, 0), (0, 1, 0), (0, 0, 1))"

text \<open>
  Modelled from the spec: \<open>np.linalg.pinv\<close>, the pseudoinverse of the numeric library,
  which is not part of the repository. Section 4.2 step 3: \<open>alloc_inverse\<close> is the
  Moore-Penrose pseudoinverse of \<open>alloc\<close>. Here it is computed in exact arithmetic by
  Greville's column recursion: with \<open>P\<close> the pseudoinverse of the columns seen so far and
  \<open>col\<close> the next one, \<open>d = P col\<close>, \<open>e = col - cols d\<close>, the new last row is
  \<open>e / (e . e)\<close> when \<open>e\<close> is not zero and \<open>d\<^sup>T P / (1 + d . d)\<close> otherwise, and every
  earlier row \<open>P\<^sub>j\<close> becomes \<open>P\<^sub>j - d\<^sub>j\<close> times that row.
\<close>

definition dot :: "real list \<Rightarrow> real list \<Rightarrow> real" where
  "dot u v = sum_list (map2 (*) u v)"

definition scale :: "real \<Rightarrow> real list \<Rightarrow> real list" where
  "scale s v = map ((*) s) v"

definition combine :: "nat \<Rightarrow> real list \<Rightarrow> real list list \<Rightarrow> real list" where
  "combine m ds vs = foldr (\<lambda>(d, v) acc. map2 (+) (scale d v) acc) (zip ds vs) (replicate m 0)"

definition greville_step ::
  "nat \<Rightarrow> real list list \<times> real list list \<Rightarrow> real list \<Rightarrow> real list list \<times> real list list"
where
  "greville_step m st col =
     (case st of (cols, P) \<Rightarrow>
        let d = map (dot col) P;
            e = map2 (-) col (combine m d cols);
            row = (if list_ex (\<lambda>t. t \<noteq> 0) e then scale (1 / dot e e) e
                   else scale (1 / (1 + dot d d)) (combine m d P))
        in (cols @ [col], map2 (\<lambda>dj Pj. map2 (-) Pj (scale dj row)) d P @ [row]))"

definition pinv_exact :: "matrix \<Rightarrow> error + matrix" where
  "pinv_exact m = Inr (snd (foldl (greville_step (length m)) ([], []) (transpose m)))"

definition exact_linalg :: linalg where
  "exact_linalg = \<lparr> linalg_inv = inv3, linalg_pinv = pinv_exact \<rparr>"

subsection \<open>Example vehicles\<close>

text \<open>
  Concrete propellers and vehicles on which the model is run. \<open>vehicle\<close> leaves
  \<open>clockwise\<close>, \<open>mass\<close> and \<open>inertia_matrix\<close> at their defaults (\<open>None\<close>, 1 and
  \<open>np.eye(3)\<close>). The \<open>_built\<close> records are the objects the constructions return.
\<close>

definition propeller_bare :: PropellerParams where
  "propeller_bare = PropellerParams_post_init (PropellerFields_default 1)"

definition propeller_full :: PropellerParams where
  "propeller_full = PropellerParams_post_init
     ((PropellerFields_default 1)\<lparr> k_thrust := Some 2, k_torque := Some 3 \<rparr>)"

definition vehicle :: "PropellerParams list \<Rightarrow> real list \<Rightarrow> real list \<Rightarrow> VehicleFields" where
  "vehicle ps angs dists =
     \<lparr> propellers = ps, angles = angs, distances = dists, clockwise = None, mass = 1,
       inertia_matrix = eye3 \<rparr>"

definition duo :: VehicleFields where
  "duo = vehicle [propeller_full, propeller_full] [0, pi / 2] [1 / 5, 1 / 5]"

definition duo_built :: VehicleParams where
  "duo_built =
     VehicleFields.extend (duo\<lparr> clockwise := Some [1, - 1] \<rparr>)
       (VehicleParams.fields eye3
          (Some [[- 2, - 2], [0, 2 / 5], [2 / 5, 0], [3, - 3]])
          (Some [[- (25 / 102), 625 / 46308, 1645 / 46308, 75 / 454],
                 [- (25 / 102), 1645 / 46308, 625 / 46308, - (75 / 454)]]))"




definition lopsided :: VehicleFields where
  "lopsided = (vehicle [propeller_bare] [] [1 / 5, 1 / 5])\<lparr> clockwise := Some [1, - 1, 1] \<rparr>"

definition lopsided_built :: VehicleParams where
  "lopsided_built = VehicleFields.extend lopsided (VehicleParams.fields eye3 None None)"

definition grounded :: VehicleFields where
  "grounded = duo\<lparr> inertia_matrix := ((0, 0, 0), (0, 0, 0), (0, 0, 0)) \<rparr>"

definition unequal_arrays :: VehicleFields where
  "unequal_arrays = vehicle [propeller_full, propeller_full] [0, pi / 2, pi] [1 / 5, 1 / 5]"

definition short_arrays :: VehicleFields where
  "short_arrays = vehicle [propeller_full, propeller_full, propeller_full] [0] [1 / 5]"

definition long_angles :: VehicleFields where
  "long_angles = vehicle [propeller_full] [0, pi / 2] [1 / 5]"

definition stretch_vehicle :: VehicleFields where
  "stretch_vehicle = vehicle [propeller_full, propeller_full] [0, 0] [1 / 2]"

definition heavy :: VehicleFields where
  "heavy = (vehicle [propeller_bare, propeller_bare] [0, pi] [1 / 5, 1 / 5])
             \<lparr> inertia_matrix := ((2, 1, 0), (1, 3, 0), (0, 0, 4)) \<rparr>"

subsection \<open>Predicates used in the statements\<close>

definition shape :: "nat \<Rightarrow> nat \<Rightarrow> matrix \<Rightarrow> bool" where
  "shape rows cols m \<longleftrightarrow> length m = rows \<and> list_all (\<lambda>row. length row = cols) m"

text \<open>
  Entry \<open>i\<close> of a one-dimensional array in an element-wise product: numpy stretches an
  array of length 1, whose single entry then stands at every index.
\<close>

definition stretched :: "real list \<Rightarrow> nat \<Rightarrow> real" where
  "stretched u i = u ! (if length u = 1 then 0 else i)"

text \<open>The product of two 3-by-3 matrices, and what the spec calls invertible.\<close>

definition mat3_mul :: "mat3 \<Rightarrow> mat3 \<Rightarrow> mat3" where
  "mat3_mul m n =
     (case m of ((p, q, r), (s, t, u), (v, w, z)) \<Rightarrow>
      case n of ((p', q', r'), (s', t', u'), (v', w', z')) \<Rightarrow>
        ((p * p' + q * s' + r * v', p * q' + q * t' + r * w', p * r' + q * u' + r * z'),
         (s * p' + t * s' + u * v', s * q' + t * t' + u * w', s * r' + t * u' + u * z'),
         (v * p' + w * s' + z * v', v * q' + w * t' + z * w', v * r' + w * u' + z * z')))"

definition invertible3 :: "mat3 \<Rightarrow> bool" where
  "invertible3 m \<longleftrightarrow> (\<exists>n. mat3_mul n m = eye3 \<and> mat3_mul m n = eye3)"

text \<open>The product of two matrices given by their rows.\<close>

definition mat_mul :: "matrix \<Rightarrow> matrix \<Rightarrow> matrix" where
  "mat_mul x y = map (\<lambda>r. map (dot r) (transpose y)) x"

text \<open>
  For the recursion: \<open>proj m cols P v\<close> is \<open>cols (P v)\<close>, the product of the matrix of
  the columns seen so far and its pseudoinverse applied to \<open>v\<close>. The invariant says that
  this map is symmetric and leaves every column seen so far fixed.
\<close>

definition proj :: "nat \<Rightarrow> real list list \<Rightarrow> real list list \<Rightarrow> real list \<Rightarrow> real list" where
  "proj m cols P v = combine m (map (\<lambda>r. dot r v) P) cols"

definition greville_inv :: "nat \<Rightarrow> real list list \<times> real list list \<Rightarrow> bool" where
  "greville_inv m st \<longleftrightarrow>
     (case st of (cols, P) \<Rightarrow>
        length P = length cols \<and> (\<forall>v \<in> set cols. length v = m) \<and> (\<forall>r \<in> set P. length r = m) \<and>
        (\<forall>u v. length u = m \<longrightarrow> length v = m \<longrightarrow>
           dot u (proj m cols P v) = dot (proj m cols P u) v) \<and>
        (\<forall>v \<in> set cols. proj m cols P v = v))"

text \<open>Column \<open>i\<close> of a matrix given by its rows.\<close>

definition column :: "matrix \<Rightarrow> nat \<Rightarrow> real list" where
  "column m i = map (\<lambda>row. row ! i) m"

text \<open>
  What one pass of the loop leaves in column \<open>i\<close> for propeller \<open>p\<close>, with the
  indices it read in range.
\<close>

definition column_set ::
  "real list \<Rightarrow> real list \<Rightarrow> int list \<Rightarrow> PropellerParams \<Rightarrow> nat \<Rightarrow> matrix \<Rightarrow> bool"
where
  "column_set x y cw p i m \<longleftrightarrow>
     i < length x \<and> i < length y \<and> i < length cw \<and>
     (\<exists>kt kq. k_thrust p = Some kt \<and> k_torque p = Some kq \<and>
        m ! 0 ! i = - kt \<and> m ! 1 ! i = kt * x ! i \<and> m ! 2 ! i = kt * y ! i \<and>
        m ! 3 ! i = kq * real_of_int (cw ! i))"

subsection \<open>Derived propeller geometry\<close>

lemma post_init_R: "R (PropellerParams_post_init f) = diameter f * 0.0254"
  by (simp add: PropellerParams_post_init_def Let_def PropellerFields.defs PropellerParams.defs)

lemma post_init_A: "A (PropellerParams_post_init f) = pi * (diameter f * 0.0254) ^ 2"
  by (simp add: PropellerParams_post_init_def Let_def PropellerFields.defs PropellerParams.defs)

lemma post_init_theta0:
  "theta0 (PropellerParams_post_init f) =
     2 * arctan2 (pitch f) ((((2 * pi) * 3) / 4 * diameter f) / 2)"
  by (simp add: PropellerParams_post_init_def Let_def PropellerFields.defs PropellerParams.defs)

lemma post_init_theta1:
  "theta1 (PropellerParams_post_init f) =
     ((- 4) / 3) * arctan2 (pitch f) ((((2 * pi) * 3) / 4 * diameter f) / 2)"
  by (simp add: PropellerParams_post_init_def Let_def PropellerFields.defs PropellerParams.defs)

lemma post_init_fields:
  "diameter (PropellerParams_post_init f) = diameter f"
  "pitch (PropellerParams_post_init f) = pitch f"
  "k_thrust (PropellerParams_post_init f) = k_thrust f"
  "k_torque (PropellerParams_post_init f) = k_torque f"
  by (simp_all add: PropellerParams_post_init_def Let_def PropellerFields.defs PropellerParams.defs)

lemma blade_angle_grouping:
  "(((2 * pi) * 3) / 4 * d) / 2 = 2 * pi * (3 / 4) * d / 2"
  by simp

text \<open>
  C3. For positive diameter and pitch the derived fields are
  \<open>R = diameter * 0.0254\<close>, \<open>A = pi * R\<^sup>2\<close>,
  \<open>theta0 = 2 * atan2(pitch, 2 pi (3/4) diameter / 2)\<close> and
  \<open>theta1 = -(4/3) * atan2(pitch, 2 pi (3/4) diameter / 2)\<close>.
\<close>

theorem C3_derived_geometry:
  assumes "0 < diameter f" and "0 < pitch f"
  shows "R (PropellerParams_post_init f) = diameter f * 0.0254
       \<and> A (PropellerParams_post_init f) = pi * (R (PropellerParams_post_init f)) ^ 2
       \<and> theta0 (PropellerParams_post_init f) = 2 * spec_blade_angle (diameter f) (pitch f)
       \<and> theta1 (PropellerParams_post_init f) = - (4 / 3) * spec_blade_angle (diameter f) (pitch f)"
  unfolding post_init_R post_init_A post_init_theta0 post_init_theta1 spec_blade_angle_def
    blade_angle_grouping
  by simp

theorem C3_derived_geometry_witness:
  "0 < diameter (PropellerFields_default 1) \<and> 0 < pitch (PropellerFields_default 1)
   \<and> R (PropellerParams_post_init (PropellerFields_default 1)) = 0.1524
   \<and> A (PropellerParams_post_init (PropellerFields_default 1)) = pi * 0.1524 ^ 2
   \<and> theta0 (PropellerParams_post_init (PropellerFields_default 1)) = 2 * spec_blade_angle 6 3"
proof -
  have d: "0 < diameter (PropellerFields_default 1)"
    by (simp add: PropellerFields_default_def)
  have p: "0 < pitch (PropellerFields_default 1)"
    by (simp add: PropellerFields_default_def)
  show ?thesis
    using C3_derived_geometry [OF d p] by (simp add: PropellerFields_default_def)
qed

text \<open>
  C9. \<open>theta0\<close> and \<open>theta1\<close> are functions of diameter and pitch only: two constructions
  with the same (positive) diameter and pitch give the same \<open>theta0\<close> and the same
  \<open>theta1\<close>, whatever the other fields are.
\<close>

theorem C9_theta_depends_on_diameter_pitch_only:
  assumes "0 < diameter f" and "0 < pitch f"
    and "diameter g = diameter f" and "pitch g = pitch f"
  shows "theta0 (PropellerParams_post_init g) = theta0 (PropellerParams_post_init f)
       \<and> theta1 (PropellerParams_post_init g) = theta1 (PropellerParams_post_init f)"
  using assms(3,4) by (simp add: post_init_theta0 post_init_theta1)

theorem C9_theta_depends_on_diameter_pitch_only_witness:
  "theta0 (PropellerParams_post_init
      ((PropellerFields_default 7)\<lparr> k_thrust := Some 1, b := 3, motor := Some \<lparr> k_m = 2, k_e = None, k_q = None \<rparr> \<rparr>))
     = theta0 (PropellerParams_post_init (PropellerFields_default 1))
   \<and> theta1 (PropellerParams_post_init
      ((PropellerFields_default 7)\<lparr> k_thrust := Some 1, b := 3, motor := Some \<lparr> k_m = 2, k_e = None, k_q = None \<rparr> \<rparr>))
     = theta1 (PropellerParams_post_init (PropellerFields_default 1))"
  by (rule C9_theta_depends_on_diameter_pitch_only)
     (simp_all add: PropellerFields_default_def)

text \<open>
  C10. The taper is a fixed multiple of the root angle: \<open>theta1 = -(2/3) * theta0\<close>, for
  every diameter and pitch.
\<close>

theorem C10_theta1_ratio:
  "theta1 (PropellerParams_post_init f) = - (2 / 3) * theta0 (PropellerParams_post_init f)"
  by (simp add: post_init_theta0 post_init_theta1)


subsection \<open>Arrays and the allocation loop\<close>

lemma shape_row: "shape rows cols m \<Longrightarrow> r < rows \<Longrightarrow> length (m ! r) = cols"
  by (simp add: shape_def list_all_length)

lemma shape_zeros: "shape rows cols (np_zeros rows cols)"
  by (simp add: shape_def np_zeros_def list_all_length)

lemma shape_setitem2: "shape rows cols m \<Longrightarrow> shape rows cols (setitem2 m r i v)"
  by (cases "r < length m") (auto simp: shape_def setitem2_def list_all_length nth_list_update)

lemma nth_setitem2:
  "shape rows cols m \<Longrightarrow> r < rows \<Longrightarrow> i < cols \<Longrightarrow>
   setitem2 m r i v ! r' ! i' = (if r' = r \<and> i' = i then v else m ! r' ! i')"
  by (auto simp: shape_def setitem2_def list_all_length nth_list_update)

lemma alloc_loop_columns:
  "alloc_loop x y cw (enumerate n ps) al = Inr al' \<Longrightarrow> shape 4 cols al \<Longrightarrow> n + length ps \<le> cols \<Longrightarrow>
   shape 4 cols al' \<and>
   (\<forall>r j. j < n \<longrightarrow> al' ! r ! j = al ! r ! j) \<and>
   (\<forall>k < length ps. column_set x y cw (ps ! k) (n + k) al')"
proof (induction ps arbitrary: n al)
  case Nil
  then show ?case by simp
next
  case (Cons p ps)
  from Cons.prems(1) obtain kt kq where
    kt: "k_thrust p = Some kt" and kq: "k_torque p = Some kq"
    and nx: "n < length x" and ny: "n < length y" and nc: "n < length cw"
    by (auto simp: Let_def split: option.splits if_splits)
  define al3 where "al3 = setitem2 (setitem2 (setitem2 (setitem2 al 0 n (- kt)) 1 n (kt * x ! n)) 2 n (kt * y ! n)) 3 n (kq * real_of_int (cw ! n))"
  from Cons.prems(1) kt kq nx ny nc have rec: "alloc_loop x y cw (enumerate (Suc n) ps) al3 = Inr al'"
    by (simp add: Let_def al3_def)
  have sh3: "shape 4 cols al3"
    unfolding al3_def using Cons.prems(2) by (intro shape_setitem2)
  have ncol: "n < cols" using Cons.prems(3) by simp
  have le: "Suc n + length ps \<le> cols" using Cons.prems(3) by simp
  note IH = Cons.IH [OF rec sh3 le]
  have al3_n: "al3 ! 0 ! n = - kt" "al3 ! 1 ! n = kt * x ! n" "al3 ! 2 ! n = kt * y ! n"
      "al3 ! 3 ! n = kq * real_of_int (cw ! n)"
    unfolding al3_def using Cons.prems(2) ncol
    by (simp_all add: nth_setitem2 [where rows = 4 and cols = cols] shape_setitem2)
  have al3_old: "al3 ! r ! j = al ! r ! j" if "j < n" for r j
    unfolding al3_def using Cons.prems(2) ncol that
    by (simp add: nth_setitem2 [where rows = 4 and cols = cols] shape_setitem2)
  have keep: "al' ! r ! n = al3 ! r ! n" for r
    using IH by simp
  have here: "column_set x y cw p n al'"
    unfolding column_set_def using kt kq nx ny nc al3_n by (simp add: keep)
  have later: "column_set x y cw ((p # ps) ! k) (n + k) al'" if "k < length (p # ps)" for k
  proof (cases k)
    case 0
    then show ?thesis using here by simp
  next
    case (Suc k')
    then show ?thesis using IH that by simp
  qed
  have old: "al' ! r ! j = al ! r ! j" if "j < n" for r j
    using IH al3_old that by simp
  show ?case using IH later old by blast
qed

lemma alloc_loop_ok:
  "list_all (\<lambda>p. k_thrust p \<noteq> None) ps \<Longrightarrow> list_all (\<lambda>p. k_torque p \<noteq> None) ps \<Longrightarrow>
   n + length ps \<le> length x \<Longrightarrow> n + length ps \<le> length y \<Longrightarrow> n + length ps \<le> length cw \<Longrightarrow>
   \<exists>al'. alloc_loop x y cw (enumerate n ps) al = Inr al'"
  by (induction ps arbitrary: n al) (auto simp: Let_def)

lemma alloc_loop_IndexError:
  "list_all (\<lambda>p. k_thrust p \<noteq> None) ps \<Longrightarrow> list_all (\<lambda>p. k_torque p \<noteq> None) ps \<Longrightarrow>
   n \<le> length x \<Longrightarrow> n \<le> length y \<Longrightarrow> n \<le> length cw \<Longrightarrow>
   length x < n + length ps \<or> length y < n + length ps \<or> length cw < n + length ps \<Longrightarrow>
   alloc_loop x y cw (enumerate n ps) al = Inl IndexError"
  by (induction ps arbitrary: n al) (auto simp: Let_def)

lemma np_multiply_length:
  "np_multiply u v = Inr x \<Longrightarrow> length x = (if length u = 1 then length v else length u)"
  by (auto simp: np_multiply_def split: if_splits)

lemma stretched_nth: "i < length u \<Longrightarrow> stretched u i = u ! i"
  by (auto simp: stretched_def)

lemma np_multiply_stretched:
  "np_multiply u v = Inr x \<Longrightarrow> i < length x \<Longrightarrow> x ! i = stretched u i * stretched v i"
  by (auto simp: np_multiply_def stretched_def split: if_splits)

lemma np_multiply_stretched_map:
  "np_multiply u (map g v) = Inr x \<Longrightarrow> i < length x \<Longrightarrow> x ! i = stretched u i * g (stretched v i)"
  by (auto simp: np_multiply_def stretched_def split: if_splits)

lemma np_multiply_Inl:
  "np_multiply u v = Inl e \<longleftrightarrow>
     e = ValueError \<and> length u \<noteq> length v \<and> length u \<noteq> 1 \<and> length v \<noteq> 1"
  by (auto simp: np_multiply_def)

lemma np_multiply_Inr:
  "length u = length v \<or> length u = 1 \<or> length v = 1 \<Longrightarrow> \<exists>x. np_multiply u v = Inr x"
  by (auto simp: np_multiply_def)

lemma has_coefficients_iff:
  "has_coefficients ps \<longleftrightarrow> (\<forall>p \<in> set ps. k_thrust p \<noteq> None \<and> k_torque p \<noteq> None)"
  by (auto simp: has_coefficients_def list_all_iff)

lemma default_clockwise_length: "length (default_clockwise n) = n"
  by (simp add: default_clockwise_def slice_assign_def np_ones_def)


lemma post_init_inv_error:
  "linalg_inv lib (inertia_matrix f) = Inl e \<Longrightarrow> VehicleParams_post_init lib f = Inl e"
  by (simp add: VehicleParams_post_init_def)

lemma post_init_without_coefficients:
  "linalg_inv lib (inertia_matrix f) = Inr mi \<Longrightarrow> \<not> has_coefficients (propellers f) \<Longrightarrow>
   VehicleParams_post_init lib f =
     Inr (VehicleFields.extend (f\<lparr> clockwise := Some (spin_direction f) \<rparr>)
            (VehicleParams.fields mi None None))"
  by (simp add: VehicleParams_post_init_def Let_def)

lemma post_init_with_coefficients:
  "linalg_inv lib (inertia_matrix f) = Inr mi \<Longrightarrow> has_coefficients (propellers f) \<Longrightarrow>
   VehicleParams_post_init lib f =
     (case allocation_matrix (distances f) (angles f) (spin_direction f) (propellers f) of
        Inl e \<Rightarrow> Inl e
      | Inr al \<Rightarrow>
          (case linalg_pinv lib al of
             Inl e \<Rightarrow> Inl e
           | Inr ali \<Rightarrow>
               Inr (VehicleFields.extend (f\<lparr> clockwise := Some (spin_direction f) \<rparr>)
                      (VehicleParams.fields mi (Some al) (Some ali)))))"
  by (simp add: VehicleParams_post_init_def Let_def)

lemma post_init_InrD:
  assumes "VehicleParams_post_init lib f = Inr v"
  shows "linalg_inv lib (inertia_matrix f) = Inr (inertia_matrix_inverse v)"
    and "clockwise v = Some (spin_direction f)"
    and "has_coefficients (propellers f) \<Longrightarrow>
           \<exists>al ali. allocation_matrix (distances f) (angles f) (spin_direction f) (propellers f) = Inr al
             \<and> linalg_pinv lib al = Inr ali \<and> alloc v = Some al \<and> alloc_inverse v = Some ali"
    and "\<not> has_coefficients (propellers f) \<Longrightarrow> alloc v = None \<and> alloc_inverse v = None"
  using assms
  by (auto simp: VehicleParams_post_init_def Let_def VehicleFields.defs VehicleParams.defs
           split: sum.splits if_splits)

lemma column_4:
  "length m = 4 \<Longrightarrow> column m i = [m ! 0 ! i, m ! 1 ! i, m ! 2 ! i, m ! 3 ! i]"
  by (simp add: column_def list_eq_iff_nth_eq nth_Cons' numeral_eq_Suc less_Suc_eq)

lemma allocation_matrix_stretched:
  assumes "allocation_matrix dists angs cw ps = Inr al"
  shows "shape 4 (length ps) al"
    and "i < length ps \<Longrightarrow>
         \<exists>kt kq. k_thrust (ps ! i) = Some kt \<and> k_torque (ps ! i) = Some kq \<and> i < length cw \<and>
           column al i = [- kt, kt * (stretched dists i * sin (stretched angs i)),
                          kt * (stretched dists i * cos (stretched angs i)),
                          kq * real_of_int (cw ! i)]"
proof -
  from assms obtain x y where
    x: "np_multiply dists (map sin angs) = Inr x" and y: "np_multiply dists (map cos angs) = Inr y"
    and loop: "alloc_loop x y cw (enumerate 0 ps) (np_zeros 4 (length ps)) = Inr al"
    by (auto simp: allocation_matrix_def split: sum.splits)
  note inv = alloc_loop_columns [OF loop shape_zeros, simplified]
  show sh: "shape 4 (length ps) al" using inv by simp
  assume i: "i < length ps"
  from inv i have cs: "column_set x y cw (ps ! i) i al" by simp
  then have ix: "i < length x" and iy: "i < length y" by (simp_all add: column_set_def)
  have xi: "x ! i = stretched dists i * sin (stretched angs i)"
    by (rule np_multiply_stretched_map [OF x ix])
  have yi: "y ! i = stretched dists i * cos (stretched angs i)"
    by (rule np_multiply_stretched_map [OF y iy])
  have len: "length al = 4" using sh by (simp add: shape_def)
  show "\<exists>kt kq. k_thrust (ps ! i) = Some kt \<and> k_torque (ps ! i) = Some kq \<and> i < length cw \<and>
           column al i = [- kt, kt * (stretched dists i * sin (stretched angs i)),
                          kt * (stretched dists i * cos (stretched angs i)),
                          kq * real_of_int (cw ! i)]"
    using cs xi yi by (auto simp: column_set_def column_4 [OF len])
qed

lemma allocation_matrix_ValueError:
  "length dists \<noteq> length angs \<Longrightarrow> length dists \<noteq> 1 \<Longrightarrow> length angs \<noteq> 1 \<Longrightarrow>
   allocation_matrix dists angs cw ps = Inl ValueError"
  by (simp add: allocation_matrix_def np_multiply_def)

lemma allocation_matrix_IndexError:
  assumes "length dists = length angs \<or> length dists = 1 \<or> length angs = 1"
    and "has_coefficients ps"
    and "(if length dists = 1 then length angs else length dists) < length ps \<or> length cw < length ps"
  shows "allocation_matrix dists angs cw ps = Inl IndexError"
proof -
  from np_multiply_Inr [of dists "map sin angs"] assms(1)
  obtain x where x: "np_multiply dists (map sin angs) = Inr x" by auto
  from np_multiply_Inr [of dists "map cos angs"] assms(1)
  obtain y where y: "np_multiply dists (map cos angs) = Inr y" by auto
  have lx: "length x = (if length dists = 1 then length angs else length dists)"
    using np_multiply_length [OF x] by simp
  have ly: "length y = (if length dists = 1 then length angs else length dists)"
    using np_multiply_length [OF y] by simp
  have "alloc_loop x y cw (enumerate 0 ps) (np_zeros 4 (length ps)) = Inl IndexError"
    using assms(2,3) lx ly
    by (intro alloc_loop_IndexError) (auto simp: has_coefficients_def)
  then show ?thesis by (simp add: allocation_matrix_def x y)
qed

lemma allocation_matrix_ok:
  assumes "length dists = length angs \<or> length dists = 1 \<or> length angs = 1"
    and "has_coefficients ps"
    and "length ps \<le> (if length dists = 1 then length angs else length dists)"
    and "length ps \<le> length cw"
  shows "\<exists>al. allocation_matrix dists angs cw ps = Inr al"
proof -
  from np_multiply_Inr [of dists "map sin angs"] assms(1)
  obtain x where x: "np_multiply dists (map sin angs) = Inr x" by auto
  from np_multiply_Inr [of dists "map cos angs"] assms(1)
  obtain y where y: "np_multiply dists (map cos angs) = Inr y" by auto
  have lx: "length x = (if length dists = 1 then length angs else length dists)"
    using np_multiply_length [OF x] by simp
  have ly: "length y = (if length dists = 1 then length angs else length dists)"
    using np_multiply_length [OF y] by simp
  have "\<exists>al. alloc_loop x y cw (enumerate 0 ps) (np_zeros 4 (length ps)) = Inr al"
    using assms(2,3,4) lx ly
    by (intro alloc_loop_ok) (auto simp: has_coefficients_def)
  then show ?thesis by (simp add: allocation_matrix_def x y)
qed

subsection \<open>Construction of a vehicle\<close>

lemmas example_defs =
  vehicle_def propeller_full_def propeller_bare_def post_init_fields PropellerFields_default_def
  eye3_def

lemmas eval_defs =
  VehicleParams_post_init_def exact_linalg_def inv3_def det3_def adj3_def div3_def
  has_coefficients_def
  allocation_matrix_def spin_direction_def default_clockwise_def np_ones_def slice_assign_def
  np_multiply_def np_zeros_def setitem2_def Let_def numeral_eq_Suc
  pinv_exact_def greville_step_def dot_def scale_def combine_def

lemma inv3_eye3: "inv3 eye3 = Inr eye3"
  by (simp add: inv3_def det3_def adj3_def div3_def eye3_def)

lemma vehicle_inv: "linalg_inv exact_linalg (inertia_matrix (vehicle ps angs dists)) = Inr eye3"
  by (simp add: vehicle_def exact_linalg_def inv3_eye3)

lemma duo_post_init: "VehicleParams_post_init exact_linalg duo = Inr duo_built"
  by (simp add: duo_def duo_built_def example_defs eval_defs)


text \<open>
  C1. When every propeller has a non-null \<open>k_thrust\<close> and \<open>k_torque\<close>:

  \<^item> in every constructed vehicle \<open>alloc\<close> is a 4-by-N matrix, N the number of propellers,
    whose column \<open>i\<close> is
    \<open>[-k_thrust\<^sub>i, k_thrust\<^sub>i * x\<^sub>i, k_thrust\<^sub>i * y\<^sub>i, k_torque\<^sub>i * clockwise\<^sub>i]\<close> with
    \<open>x\<^sub>i = distances\<^sub>i * sin(angles\<^sub>i)\<close> and \<open>y\<^sub>i = distances\<^sub>i * cos(angles\<^sub>i)\<close>, for every
    propeller \<open>i\<close>; of an array of length 1 numpy takes the single entry at every \<open>i\<close>;
  \<^item> when \<open>angles\<close> and \<open>distances\<close> have the same length, at least N, and \<open>clockwise\<close>
    has at least N entries, that matrix is built, with entry \<open>i\<close> of each array in column
    \<open>i\<close>, and once the inertia matrix has been inverted the construction returns it as
    \<open>alloc\<close> unless the pseudoinverse routine raises.
\<close>

theorem C1_alloc_columns:
  assumes "\<forall>p \<in> set (propellers f). k_thrust p \<noteq> None \<and> k_torque p \<noteq> None"
  shows "(VehicleParams_post_init lib f = Inr v \<longrightarrow>
            (\<exists>al cw. alloc v = Some al \<and> clockwise v = Some cw \<and> shape 4 (length (propellers f)) al \<and>
               (\<forall>i < length (propellers f).
                  \<exists>kt kq. k_thrust (propellers f ! i) = Some kt \<and> k_torque (propellers f ! i) = Some kq \<and>
                    column al i =
                      [- kt,
                       kt * (stretched (distances f) i * sin (stretched (angles f) i)),
                       kt * (stretched (distances f) i * cos (stretched (angles f) i)),
                       kq * real_of_int (cw ! i)])))
       \<and> (length (angles f) = length (distances f)
            \<and> length (propellers f) \<le> length (distances f)
            \<and> length (propellers f) \<le> length (spin_direction f)
            \<and> linalg_inv lib (inertia_matrix f) = Inr mi \<longrightarrow>
            (\<exists>al. shape 4 (length (propellers f)) al \<and>
               (\<forall>i < length (propellers f).
                  \<exists>kt kq. k_thrust (propellers f ! i) = Some kt \<and> k_torque (propellers f ! i) = Some kq \<and>
                    column al i =
                      [- kt,
                       kt * (distances f ! i * sin (angles f ! i)),
                       kt * (distances f ! i * cos (angles f ! i)),
                       kq * real_of_int (spin_direction f ! i)]) \<and>
               VehicleParams_post_init lib f =
                 (case linalg_pinv lib al of
                    Inl e \<Rightarrow> Inl e
                  | Inr ali \<Rightarrow>
                      Inr (VehicleFields.extend (f\<lparr> clockwise := Some (spin_direction f) \<rparr>)
                             (VehicleParams.fields mi (Some al) (Some ali))))))"
proof (intro conjI impI)
  have hc: "has_coefficients (propellers f)"
    using assms by (simp add: has_coefficients_iff)
  {
    assume ok: "VehicleParams_post_init lib f = Inr v"
    from post_init_InrD(3) [OF ok hc] obtain al ali where
      am: "allocation_matrix (distances f) (angles f) (spin_direction f) (propellers f) = Inr al"
      and al: "alloc v = Some al"
      by blast
    have cw: "clockwise v = Some (spin_direction f)"
      by (rule post_init_InrD(2) [OF ok])
    show "\<exists>al cw. alloc v = Some al \<and> clockwise v = Some cw \<and> shape 4 (length (propellers f)) al \<and>
               (\<forall>i < length (propellers f).
                  \<exists>kt kq. k_thrust (propellers f ! i) = Some kt \<and> k_torque (propellers f ! i) = Some kq \<and>
                    column al i =
                      [- kt,
                       kt * (stretched (distances f) i * sin (stretched (angles f) i)),
                       kt * (stretched (distances f) i * cos (stretched (angles f) i)),
                       kq * real_of_int (cw ! i)])"
      using al cw allocation_matrix_stretched [OF am] by blast
  }
  {
    assume h: "length (angles f) = length (distances f)
            \<and> length (propellers f) \<le> length (distances f)
            \<and> length (propellers f) \<le> length (spin_direction f)
            \<and> linalg_inv lib (inertia_matrix f) = Inr mi"
    then have "\<exists>al. allocation_matrix (distances f) (angles f) (spin_direction f) (propellers f) = Inr al"
      using hc by (intro allocation_matrix_ok) auto
    then obtain al where
      am: "allocation_matrix (distances f) (angles f) (spin_direction f) (propellers f) = Inr al" ..
    have cols: "\<exists>kt kq. k_thrust (propellers f ! i) = Some kt \<and> k_torque (propellers f ! i) = Some kq \<and>
                    column al i =
                      [- kt,
                       kt * (distances f ! i * sin (angles f ! i)),
                       kt * (distances f ! i * cos (angles f ! i)),
                       kq * real_of_int (spin_direction f ! i)]"
      if "i < length (propellers f)" for i
      using allocation_matrix_stretched(2) [OF am that] h that
      by (auto simp: stretched_nth)
    have run: "VehicleParams_post_init lib f =
                 (case linalg_pinv lib al of
                    Inl e \<Rightarrow> Inl e
                  | Inr ali \<Rightarrow>
                      Inr (VehicleFields.extend (f\<lparr> clockwise := Some (spin_direction f) \<rparr>)
                             (VehicleParams.fields mi (Some al) (Some ali))))"
      using h hc am by (simp add: post_init_with_coefficients)
    show "\<exists>al. shape 4 (length (propellers f)) al \<and>
               (\<forall>i < length (propellers f).
                  \<exists>kt kq. k_thrust (propellers f ! i) = Some kt \<and> k_torque (propellers f ! i) = Some kq \<and>
                    column al i =
                      [- kt,
                       kt * (distances f ! i * sin (angles f ! i)),
                       kt * (distances f ! i * cos (angles f ! i)),
                       kq * real_of_int (spin_direction f ! i)]) \<and>
               VehicleParams_post_init lib f =
                 (case linalg_pinv lib al of
                    Inl e \<Rightarrow> Inl e
                  | Inr ali \<Rightarrow>
                      Inr (VehicleFields.extend (f\<lparr> clockwise := Some (spin_direction f) \<rparr>)
                             (VehicleParams.fields mi (Some al) (Some ali))))"
      using allocation_matrix_stretched(1) [OF am] cols run by blast
  }
qed


theorem C1_alloc_columns_witness:
  "(\<exists>w al. VehicleParams_post_init exact_linalg duo = Inr w \<and> alloc w = Some al \<and> shape 4 2 al
        \<and> column al 0 = [- 2, 0, 2 / 5, 3] \<and> column al 1 = [- 2, 2 / 5, 0, - 3])
   \<and> (\<exists>w al. VehicleParams_post_init exact_linalg stretch_vehicle = Inr w \<and> alloc w = Some al
        \<and> column al 0 = [- 2, 0, 1, 3] \<and> column al 1 = [- 2, 0, 1, - 3])"
proof -
  have kt: "k_thrust propeller_full = Some 2" and kq: "k_torque propeller_full = Some 3"
    by (simp_all add: example_defs)
  have duo_fields: "propellers duo = [propeller_full, propeller_full]" "angles duo = [0, pi / 2]"
    "distances duo = [1 / 5, 1 / 5]" "spin_direction duo = [1, - 1]"
    "linalg_inv exact_linalg (inertia_matrix duo) = Inr eye3"
    by (simp_all add: duo_def vehicle_inv) (simp_all add: vehicle_def spin_direction_def default_clockwise_def slice_assign_def np_ones_def)
  have full: "\<forall>p \<in> set (propellers duo). k_thrust p \<noteq> None \<and> k_torque p \<noteq> None"
    by (simp add: duo_fields kt kq)
  have lens: "length (angles duo) = length (distances duo)
            \<and> length (propellers duo) \<le> length (distances duo)
            \<and> length (propellers duo) \<le> length (spin_direction duo)
            \<and> linalg_inv exact_linalg (inertia_matrix duo) = Inr eye3"
    by (simp add: duo_fields)
  \<comment> \<open>one entry per propeller: the construction is carried out\<close>
  from C1_alloc_columns [OF full, where lib = exact_linalg and mi = eye3, THEN conjunct2,
      rule_format, OF lens]
  obtain al where
    sh: "shape 4 (length (propellers duo)) al"
    and cols: "\<forall>i < length (propellers duo). \<exists>kt kq. k_thrust (propellers duo ! i) = Some kt
                 \<and> k_torque (propellers duo ! i) = Some kq
                 \<and> column al i =
                      [- kt, kt * (distances duo ! i * sin (angles duo ! i)),
                       kt * (distances duo ! i * cos (angles duo ! i)),
                       kq * real_of_int (spin_direction duo ! i)]"
    and run: "VehicleParams_post_init exact_linalg duo =
                 (case linalg_pinv exact_linalg al of
                    Inl e \<Rightarrow> Inl e
                  | Inr ali \<Rightarrow>
                      Inr (VehicleFields.extend (duo\<lparr> clockwise := Some (spin_direction duo) \<rparr>)
                             (VehicleParams.fields eye3 (Some al) (Some ali))))"
    by blast
  from cols [rule_format, of 0] have c0: "column al 0 = [- 2, 0, 2 / 5, 3]"
    by (simp add: duo_fields kt kq)
  from cols [rule_format, of 1] have c1: "column al 1 = [- 2, 2 / 5, 0, - 3]"
    by (simp add: duo_fields kt kq)
  have a: "\<exists>w al. VehicleParams_post_init exact_linalg duo = Inr w \<and> alloc w = Some al \<and> shape 4 2 al
        \<and> column al 0 = [- 2, 0, 2 / 5, 3] \<and> column al 1 = [- 2, 2 / 5, 0, - 3]"
    using sh c0 c1 unfolding run
    by (simp add: duo_fields exact_linalg_def pinv_exact_def VehicleFields.defs VehicleParams.defs
          numeral_2_eq_2)
  \<comment> \<open>a single distance stretched over two propellers\<close>
  have st_fields: "propellers stretch_vehicle = [propeller_full, propeller_full]"
    "angles stretch_vehicle = [0, 0]" "distances stretch_vehicle = [1 / 2]"
    "spin_direction stretch_vehicle = [1, - 1]"
    "linalg_inv exact_linalg (inertia_matrix stretch_vehicle) = Inr eye3"
    by (simp_all add: stretch_vehicle_def vehicle_inv) (simp_all add: vehicle_def spin_direction_def default_clockwise_def slice_assign_def np_ones_def)
  have st_full: "\<forall>p \<in> set (propellers stretch_vehicle). k_thrust p \<noteq> None \<and> k_torque p \<noteq> None"
    by (simp add: st_fields kt kq)
  have st_hc: "has_coefficients (propellers stretch_vehicle)"
    using st_full by (simp add: has_coefficients_iff)
  have "\<exists>al. allocation_matrix (distances stretch_vehicle) (angles stretch_vehicle)
                (spin_direction stretch_vehicle) (propellers stretch_vehicle) = Inr al"
    using st_hc by (intro allocation_matrix_ok) (simp_all add: st_fields)
  then obtain sal0 where sal0: "allocation_matrix (distances stretch_vehicle) (angles stretch_vehicle)
                (spin_direction stretch_vehicle) (propellers stretch_vehicle) = Inr sal0" ..
  have pinv: "linalg_pinv exact_linalg = pinv_exact"
    by (simp add: exact_linalg_def)
  have "\<exists>w. VehicleParams_post_init exact_linalg stretch_vehicle = Inr w"
    by (simp add: post_init_with_coefficients [OF st_fields(5) st_hc] sal0 pinv pinv_exact_def)
  then obtain w where w: "VehicleParams_post_init exact_linalg stretch_vehicle = Inr w" ..
  from C1_alloc_columns [OF st_full, where lib = exact_linalg and v = w, THEN conjunct1,
      rule_format, OF w]
  obtain sal scw where
    sal: "alloc w = Some sal" and scw: "clockwise w = Some scw"
    and scols: "\<forall>i < length (propellers stretch_vehicle). \<exists>kt kq.
                 k_thrust (propellers stretch_vehicle ! i) = Some kt
                 \<and> k_torque (propellers stretch_vehicle ! i) = Some kq
                 \<and> column sal i =
                      [- kt,
                       kt * (stretched (distances stretch_vehicle) i * sin (stretched (angles stretch_vehicle) i)),
                       kt * (stretched (distances stretch_vehicle) i * cos (stretched (angles stretch_vehicle) i)),
                       kq * real_of_int (scw ! i)]"
    by blast
  have scw_eq: "scw = [1, - 1]"
    using post_init_InrD(2) [OF w] scw by (simp add: st_fields)
  from scols [rule_format, of 0] have s0: "column sal 0 = [- 2, 0, 1, 3]"
    by (simp add: st_fields kt kq scw_eq stretched_def)
  from scols [rule_format, of 1] have s1: "column sal 1 = [- 2, 0, 1, - 3]"
    by (simp add: st_fields kt kq scw_eq stretched_def)
  have b: "\<exists>w al. VehicleParams_post_init exact_linalg stretch_vehicle = Inr w \<and> alloc w = Some al
        \<and> column al 0 = [- 2, 0, 1, 3] \<and> column al 1 = [- 2, 0, 1, - 3]"
    using w sal s0 s1 by blast
  show ?thesis using a b by blast
qed





subsection \<open>Inertia inversion\<close>

lemma det3_mul: "det3 (mat3_mul m n) = det3 m * det3 n"
  by (simp add: det3_def mat3_mul_def split: prod.splits) (auto simp: algebra_simps)

lemma det3_eye3: "det3 eye3 = 1"
  by (simp add: det3_def eye3_def)

lemma adj3_left: "mat3_mul (adj3 m) m = ((det3 m, 0, 0), (0, det3 m, 0), (0, 0, det3 m))"
  by (simp add: det3_def mat3_mul_def adj3_def split: prod.splits) (auto simp: algebra_simps)

lemma adj3_right: "mat3_mul m (adj3 m) = ((det3 m, 0, 0), (0, det3 m, 0), (0, 0, det3 m))"
  by (simp add: det3_def mat3_mul_def adj3_def split: prod.splits) (auto simp: algebra_simps)

lemma div3_mul_left: "mat3_mul (div3 m d) n = div3 (mat3_mul m n) d"
  by (simp add: mat3_mul_def div3_def add_divide_distrib split: prod.splits)

lemma div3_mul_right: "mat3_mul m (div3 n d) = div3 (mat3_mul m n) d"
  by (simp add: mat3_mul_def div3_def add_divide_distrib split: prod.splits)

lemma div3_diag: "d \<noteq> 0 \<Longrightarrow> div3 ((d, 0, 0), (0, d, 0), (0, 0, d)) d = eye3"
  by (simp add: div3_def eye3_def)

lemma inv3_inverse:
  assumes "inv3 m = Inr mi"
  shows "mat3_mul mi m = eye3" and "mat3_mul m mi = eye3"
proof -
  from assms have d: "det3 m \<noteq> 0" and mi: "mi = div3 (adj3 m) (det3 m)"
    by (auto simp: inv3_def Let_def split: if_splits)
  show "mat3_mul mi m = eye3"
    by (simp add: mi div3_mul_left adj3_left div3_diag [OF d])
  show "mat3_mul m mi = eye3"
    by (simp add: mi div3_mul_right adj3_right div3_diag [OF d])
qed

lemma invertible3_iff_det3: "invertible3 m \<longleftrightarrow> det3 m \<noteq> 0"
proof
  assume "invertible3 m"
  then obtain n where "mat3_mul n m = eye3" by (auto simp: invertible3_def)
  then have "det3 n * det3 m = 1"
    using det3_mul [of n m] by (simp add: det3_eye3)
  then show "det3 m \<noteq> 0" by auto
next
  assume d: "det3 m \<noteq> 0"
  then have "inv3 m = Inr (div3 (adj3 m) (det3 m))"
    by (simp add: inv3_def)
  from inv3_inverse [OF this] show "invertible3 m"
    unfolding invertible3_def by (intro exI [of _ "div3 (adj3 m) (det3 m)"] conjI)
qed

text \<open>
  C4. With the library's inverse as modelled: a vehicle whose inertia matrix is singular
  (not invertible) is not constructed, the construction raises the error of the inversion;
  an invertible inertia matrix is inverted, and in every constructed vehicle
  \<open>inertia_matrix_inverse\<close> times \<open>inertia_matrix\<close> is the identity.
\<close>

theorem C4_inertia_inversion:
  assumes "linalg_inv lib = inv3"
  shows "(\<not> invertible3 (inertia_matrix f) \<longrightarrow> VehicleParams_post_init lib f = Inl LinAlgError)
       \<and> (invertible3 (inertia_matrix f) \<longrightarrow>
            (\<exists>mi. linalg_inv lib (inertia_matrix f) = Inr mi
               \<and> mat3_mul mi (inertia_matrix f) = eye3))
       \<and> (VehicleParams_post_init lib f = Inr v \<longrightarrow>
            invertible3 (inertia_matrix f)
            \<and> mat3_mul (inertia_matrix_inverse v) (inertia_matrix f) = eye3)"
proof (intro conjI impI)
  assume "\<not> invertible3 (inertia_matrix f)"
  then have "linalg_inv lib (inertia_matrix f) = Inl LinAlgError"
    by (simp add: assms invertible3_iff_det3 inv3_def)
  then show "VehicleParams_post_init lib f = Inl LinAlgError"
    by (rule post_init_inv_error)
next
  assume "invertible3 (inertia_matrix f)"
  then have "inv3 (inertia_matrix f) = Inr (div3 (adj3 (inertia_matrix f)) (det3 (inertia_matrix f)))"
    by (simp add: invertible3_iff_det3 inv3_def)
  then show "\<exists>mi. linalg_inv lib (inertia_matrix f) = Inr mi \<and> mat3_mul mi (inertia_matrix f) = eye3"
    using inv3_inverse(1) by (simp add: assms)
next
  assume ok: "VehicleParams_post_init lib f = Inr v"
  have inv: "inv3 (inertia_matrix f) = Inr (inertia_matrix_inverse v)"
    using post_init_InrD(1) [OF ok] by (simp add: assms)
  from inv show "invertible3 (inertia_matrix f)"
    by (auto simp: invertible3_iff_det3 inv3_def Let_def split: if_splits)
  from inv show "mat3_mul (inertia_matrix_inverse v) (inertia_matrix f) = eye3"
    by (rule inv3_inverse(1))
qed

theorem C4_inertia_inversion_witness:
  "VehicleParams_post_init exact_linalg grounded = Inl LinAlgError
   \<and> (\<exists>w. VehicleParams_post_init exact_linalg heavy = Inr w
         \<and> inertia_matrix_inverse w = ((3 / 5, - (1 / 5), 0), (- (1 / 5), 2 / 5, 0), (0, 0, 1 / 4))
         \<and> mat3_mul (inertia_matrix_inverse w) ((2, 1, 0), (1, 3, 0), (0, 0, 4)) = eye3)"
proof -
  have lib: "linalg_inv exact_linalg = inv3"
    by (simp add: exact_linalg_def)
  have singular: "\<not> invertible3 (inertia_matrix grounded)"
    by (simp add: invertible3_iff_det3 grounded_def det3_def)
  have a: "VehicleParams_post_init exact_linalg grounded = Inl LinAlgError"
    using C4_inertia_inversion [OF lib, of grounded] singular by blast
  have inertia: "inertia_matrix heavy = ((2, 1, 0), (1, 3, 0), (0, 0, 4))"
    by (simp add: heavy_def)
  have inv: "linalg_inv exact_linalg (inertia_matrix heavy) =
               Inr ((3 / 5, - (1 / 5), 0), (- (1 / 5), 2 / 5, 0), (0, 0, 1 / 4))"
    by (simp add: lib inertia inv3_def det3_def adj3_def div3_def)
  have bare: "\<not> has_coefficients (propellers heavy)"
    by (simp add: heavy_def has_coefficients_def example_defs)
  obtain w where w: "VehicleParams_post_init exact_linalg heavy = Inr w"
    and wi: "inertia_matrix_inverse w = ((3 / 5, - (1 / 5), 0), (- (1 / 5), 2 / 5, 0), (0, 0, 1 / 4))"
    by (simp add: post_init_without_coefficients [OF inv bare] VehicleFields.defs VehicleParams.defs)
  have "mat3_mul (inertia_matrix_inverse w) (inertia_matrix heavy) = eye3"
    using C4_inertia_inversion [OF lib, of heavy w] w by blast
  then show ?thesis using a w wi by (auto simp: inertia)
qed

subsection \<open>Pseudoinverse\<close>

lemma combine_Nil: "combine m [] vs = replicate m 0" "combine m ds [] = replicate m 0"
  by (simp_all add: combine_def)

lemma combine_Cons:
  "combine m (d # ds) (v # vs) = map2 (+) (scale d v) (combine m ds vs)"
  by (simp add: combine_def)

lemma length_scale: "length (scale s v) = length v"
  by (simp add: scale_def)

lemma nth_scale: "i < length v \<Longrightarrow> scale s v ! i = s * v ! i"
  by (simp add: scale_def)

lemma length_combine:
  "\<forall>v \<in> set vs. length v = m \<Longrightarrow> length (combine m ds vs) = m"
proof (induction ds arbitrary: vs)
  case Nil
  then show ?case by (simp add: combine_Nil)
next
  case (Cons d ds)
  then show ?case
    by (cases vs) (simp_all add: combine_Nil combine_Cons length_scale)
qed

lemma combine_nth:
  "i < m \<Longrightarrow> \<forall>v \<in> set vs. length v = m \<Longrightarrow>
   combine m ds vs ! i = sum_list (map2 (\<lambda>d v. d * v ! i) ds vs)"
proof (induction ds arbitrary: vs)
  case Nil
  then show ?case by (simp add: combine_Nil)
next
  case (Cons d ds)
  show ?case
  proof (cases vs)
    case Nil
    then show ?thesis using Cons.prems by (simp add: combine_Nil)
  next
    case (Cons v vs')
    then show ?thesis
      using Cons.prems Cons.IH [of vs']
      by (simp add: combine_Cons length_scale length_combine nth_scale)
  qed
qed

lemma dot_Nil: "dot [] v = 0" "dot u [] = 0"
  by (simp_all add: dot_def)

lemma dot_Cons: "dot (x # u) (y # v) = x * y + dot u v"
  by (simp add: dot_def)

lemma dot_commute: "dot u v = dot v u"
proof (induction u arbitrary: v)
  case Nil
  then show ?case by (simp add: dot_Nil)
next
  case (Cons x u)
  then show ?case by (cases v) (simp_all add: dot_Nil dot_Cons)
qed

lemma dot_add_right:
  "length v = length w \<Longrightarrow> dot u (map2 (+) v w) = dot u v + dot u w"
proof (induction u arbitrary: v w)
  case Nil
  then show ?case by (simp add: dot_Nil)
next
  case (Cons x u)
  then show ?case
    by (cases v; cases w) (simp_all add: dot_Nil dot_Cons algebra_simps)
qed

lemma dot_sub_right:
  "length v = length w \<Longrightarrow> dot u (map2 (-) v w) = dot u v - dot u w"
proof (induction u arbitrary: v w)
  case Nil
  then show ?case by (simp add: dot_Nil)
next
  case (Cons x u)
  then show ?case
    by (cases v; cases w) (simp_all add: dot_Nil dot_Cons algebra_simps)
qed

lemma dot_scale_right: "dot u (scale s v) = s * dot u v"
proof (induction u arbitrary: v)
  case Nil
  then show ?case by (simp add: dot_Nil)
next
  case (Cons x u)
  then show ?case
    by (cases v) (simp_all add: dot_Nil dot_Cons scale_def algebra_simps)
qed

lemma dot_replicate_0: "dot u (replicate m 0) = 0"
proof (induction u arbitrary: m)
  case Nil
  then show ?case by (simp add: dot_Nil)
next
  case (Cons x u)
  then show ?case by (cases m) (simp_all add: dot_Nil dot_Cons)
qed

lemma dot_combine_0:
  "\<forall>v \<in> set vs. length v = m \<and> dot u v = 0 \<Longrightarrow> dot u (combine m ds vs) = 0"
proof (induction ds arbitrary: vs)
  case Nil
  then show ?case by (simp add: combine_Nil dot_replicate_0)
next
  case (Cons d ds)
  show ?case
  proof (cases vs)
    case Nil
    then show ?thesis by (simp add: combine_Nil dot_replicate_0)
  next
    case (Cons v vs')
    then show ?thesis
      using Cons.prems Cons.IH [of vs']
      by (simp add: combine_Cons dot_add_right length_scale length_combine dot_scale_right)
  qed
qed

lemma dot_self_eq_0: "dot e e = 0 \<longleftrightarrow> \<not> list_ex (\<lambda>t. t \<noteq> 0) e"
proof (induction e)
  case Nil
  then show ?case by (simp add: dot_Nil)
next
  case (Cons x e)
  have nonneg: "0 \<le> dot e e" for e :: "real list"
    by (induction e) (simp_all add: dot_Nil dot_Cons)
  have "x * x + dot e e = 0 \<longleftrightarrow> x = 0 \<and> dot e e = 0"
    using nonneg [of e] by (smt (verit) mult_eq_0_iff zero_le_square)
  then show ?case using Cons by (simp add: dot_Cons)
qed

lemma combine_snoc:
  assumes "length ds = length vs" "\<forall>v \<in> set vs. length v = m" "length w = m"
  shows "combine m (ds @ [t]) (vs @ [w]) = map2 (+) (combine m ds vs) (scale t w)"
proof (rule nth_equalityI)
  show "length (combine m (ds @ [t]) (vs @ [w])) = length (map2 (+) (combine m ds vs) (scale t w))"
    using assms by (simp add: length_combine length_scale)
  fix i assume "i < length (combine m (ds @ [t]) (vs @ [w]))"
  then have i: "i < m" using assms by (simp add: length_combine)
  show "combine m (ds @ [t]) (vs @ [w]) ! i = map2 (+) (combine m ds vs) (scale t w) ! i"
    using assms i by (simp add: combine_nth length_combine length_scale nth_scale)
qed

lemma combine_sub:
  assumes "\<forall>v \<in> set vs. length v = m"
  shows "combine m (map (\<lambda>p. f p - g p * t) ps) vs =
         map2 (-) (combine m (map f ps) vs) (scale t (combine m (map g ps) vs))"
proof (rule nth_equalityI)
  show "length (combine m (map (\<lambda>p. f p - g p * t) ps) vs) =
        length (map2 (-) (combine m (map f ps) vs) (scale t (combine m (map g ps) vs)))"
    using assms by (simp add: length_combine length_scale)
  fix i assume "i < length (combine m (map (\<lambda>p. f p - g p * t) ps) vs)"
  then have i: "i < m" using assms by (simp add: length_combine)
  have "sum_list (map2 (\<lambda>d v. d * v ! i) (map (\<lambda>p. f p - g p * t) ps) vs) =
        sum_list (map2 (\<lambda>d v. d * v ! i) (map f ps) vs)
        - t * sum_list (map2 (\<lambda>d v. d * v ! i) (map g ps) vs)" for vs :: "real list list"
  proof (induction ps arbitrary: vs)
    case Nil
    then show ?case by simp
  next
    case (Cons p ps)
    then show ?case by (cases vs) (simp_all add: algebra_simps)
  qed
  then show "combine m (map (\<lambda>p. f p - g p * t) ps) vs ! i =
        map2 (-) (combine m (map f ps) vs) (scale t (combine m (map g ps) vs)) ! i"
    using assms i by (simp add: combine_nth length_combine length_scale nth_scale)
qed


lemma map2_map_same: "map2 f (map g xs) xs = map (\<lambda>x. f (g x) x) xs"
  by (induction xs) simp_all

lemma length_proj: "\<forall>v \<in> set cols. length v = m \<Longrightarrow> length (proj m cols P v) = m"
  by (simp add: proj_def length_combine)

lemma proj_step:
  assumes len: "length P = length cols"
    and cols: "\<forall>v \<in> set cols. length v = m"
    and rows: "\<forall>r \<in> set P. length r = m"
    and col: "length col = m" and row: "length row = m" and v: "length v = m"
  shows "proj m (cols @ [col])
           (map2 (\<lambda>dj Pj. map2 (-) Pj (scale dj row)) (map (dot col) P) P @ [row]) v =
         map2 (+) (proj m cols P v)
           (scale (dot row v) (map2 (-) col (combine m (map (dot col) P) cols)))"
proof -
  let ?t = "dot row v"
  let ?X = "combine m (map (\<lambda>r. dot r v) P) cols"
  let ?Y = "combine m (map (dot col) P) cols"
  have coef: "map (\<lambda>r. dot r v) (map2 (\<lambda>dj Pj. map2 (-) Pj (scale dj row)) (map (dot col) P) P) =
              map (\<lambda>r. dot r v - dot col r * ?t) P"
  proof -
    have "dot (map2 (-) r (scale (dot col r) row)) v = dot r v - dot col r * ?t" if "r \<in> set P" for r
    proof -
      have "length r = length (scale (dot col r) row)"
        using rows that row by (simp add: length_scale)
      then have "dot v (map2 (-) r (scale (dot col r) row)) = dot v r - dot col r * dot v row"
        by (simp add: dot_sub_right dot_scale_right)
      then show ?thesis by (simp add: dot_commute)
    qed
    then show ?thesis by (simp add: map2_map_same)
  qed
  have "proj m (cols @ [col])
           (map2 (\<lambda>dj Pj. map2 (-) Pj (scale dj row)) (map (dot col) P) P @ [row]) v =
        combine m (map (\<lambda>r. dot r v - dot col r * ?t) P @ [?t]) (cols @ [col])"
    unfolding proj_def by (simp only: map_append coef list.map)
  also have "\<dots> = map2 (+) (combine m (map (\<lambda>r. dot r v - dot col r * ?t) P) cols) (scale ?t col)"
    using len cols col by (intro combine_snoc) simp_all
  also have "\<dots> = map2 (+) (map2 (-) ?X (scale ?t ?Y)) (scale ?t col)"
    using cols by (simp add: combine_sub)
  also have "\<dots> = map2 (+) ?X (scale ?t (map2 (-) col ?Y))"
    using cols col
    by (intro nth_equalityI)
       (simp_all add: length_combine length_scale nth_scale algebra_simps)
  finally show ?thesis by (simp add: proj_def)
qed


lemma list_ex_nonzero_nth:
  "\<not> list_ex (\<lambda>t. t \<noteq> 0) e \<Longrightarrow> i < length e \<Longrightarrow> e ! i = (0::real)"
  by (auto simp: list_ex_iff)

lemma greville_update_inv:
  fixes cols P :: "real list list"
  defines "Y col \<equiv> combine (length col) (map (dot col) P) cols"
  assumes inv: "greville_inv m (cols, P)"
    and col: "length col = m" and row: "length row = m"
    and rowdef: "list_ex (\<lambda>t. t \<noteq> 0) (map2 (-) col (Y col)) \<Longrightarrow>
                   row = scale (1 / dot (map2 (-) col (Y col)) (map2 (-) col (Y col)))
                           (map2 (-) col (Y col))"
  shows "greville_inv m
           (cols @ [col], map2 (\<lambda>dj Pj. map2 (-) Pj (scale dj row)) (map (dot col) P) P @ [row])"
proof -
  let ?Y = "combine m (map (dot col) P) cols"
  let ?e = "map2 (-) col ?Y"
  let ?P' = "map2 (\<lambda>dj Pj. map2 (-) Pj (scale dj row)) (map (dot col) P) P @ [row]"
  let ?G = "proj m cols P"
  let ?G' = "proj m (cols @ [col]) ?P'"
  have Yeq: "Y col = ?Y" by (simp add: Y_def col)
  from inv have len: "length P = length cols"
    and cols: "\<forall>v \<in> set cols. length v = m"
    and rows: "\<forall>r \<in> set P. length r = m"
    and symm: "\<And>u v. length u = m \<Longrightarrow> length v = m \<Longrightarrow> dot u (?G v) = dot (?G u) v"
    and fixd: "\<And>v. v \<in> set cols \<Longrightarrow> ?G v = v"
    by (auto simp: greville_inv_def)
  have lenY: "length ?Y = m" using cols by (simp add: length_combine)
  have lene: "length ?e = m" using col lenY by simp
  have lenG: "length (?G v) = m" for v using cols by (rule length_proj)
  have "dot col = (\<lambda>r. dot r col)"
    by (rule ext) (rule dot_commute)
  then have Yproj: "?Y = ?G col"
    by (simp add: proj_def)
  have step: "?G' v = map2 (+) (?G v) (scale (dot row v) ?e)" if "length v = m" for v
    by (rule proj_step [OF len cols rows col row that])
  have orth: "dot ?e v = 0" if "v \<in> set cols" for v
  proof -
    have lv: "length v = m" using cols that by simp
    have "dot v ?e = dot v col - dot v ?Y"
      using col lenY by (simp add: dot_sub_right)
    also have "dot v ?Y = dot (?G v) col"
      unfolding Yproj by (rule symm [OF lv col])
    also have "\<dots> = dot v col" by (simp add: fixd [OF that])
    finally show ?thesis by (simp add: dot_commute [of ?e])
  qed
  have eY: "dot ?e ?Y = 0"
    using cols orth by (intro dot_combine_0) simp
  have ecol: "dot ?e col = dot ?e ?e"
  proof -
    have "dot ?e ?e = dot ?e col - dot ?e ?Y"
      using col lenY by (simp add: dot_sub_right)
    then show ?thesis by (simp add: eY)
  qed
  have same: "?G' w = ?G w" if "\<not> list_ex (\<lambda>t. t \<noteq> 0) ?e" and "length w = m" for w
    using lenG [of w] lene list_ex_nonzero_nth [OF that(1)]
    by (intro nth_equalityI) (simp_all add: step [OF that(2)] length_scale nth_scale)
  have rowv: "dot row v = dot ?e v / dot ?e ?e" if "list_ex (\<lambda>t. t \<noteq> 0) ?e" for v
  proof -
    from that have "row = scale (1 / dot ?e ?e) ?e" using rowdef by (simp add: Yeq)
    then show ?thesis by (simp add: dot_commute [of _ v] dot_scale_right)
  qed
  have sym': "dot u (?G' v) = dot (?G' u) v" if u: "length u = m" and v: "length v = m" for u v
  proof (cases "list_ex (\<lambda>t. t \<noteq> 0) ?e")
    case True
    have "dot u (?G' v) = dot u (?G v) + dot row v * dot u ?e"
      using lenG lene by (simp add: step [OF v] dot_add_right length_scale dot_scale_right)
    moreover have "dot v (?G' u) = dot v (?G u) + dot row u * dot v ?e"
      using lenG lene by (simp add: step [OF u] dot_add_right length_scale dot_scale_right)
    moreover have "dot row v * dot u ?e = dot row u * dot v ?e"
      by (simp add: rowv [OF True] dot_commute [of u] dot_commute [of v])
    moreover have "dot u (?G v) = dot v (?G u)"
      using symm [OF u v] by (simp add: dot_commute)
    ultimately show ?thesis by (simp add: dot_commute [of _ v])
  next
    case False
    then show ?thesis using symm [OF u v] u v by (simp add: same)
  qed
  have fix_old: "?G' v = v" if "v \<in> set cols" for v
  proof (cases "list_ex (\<lambda>t. t \<noteq> 0) ?e")
    case True
    have lv: "length v = m" using cols that by simp
    have "dot row v = 0"
      by (simp add: rowv [OF True] orth [OF that])
    then show ?thesis
      using lv lene by (simp add: step [OF lv] fixd [OF that])
         (intro nth_equalityI; simp add: length_scale nth_scale)
  next
    case False
    have lv: "length v = m" using cols that by simp
    show ?thesis by (simp add: same [OF False lv] fixd [OF that])
  qed
  have fix_new: "?G' col = col"
  proof (cases "list_ex (\<lambda>t. t \<noteq> 0) ?e")
    case True
    then have "dot ?e ?e \<noteq> 0" by (simp add: dot_self_eq_0)
    then have "dot row col = 1"
      by (simp add: rowv [OF True] ecol)
    then show ?thesis
      using col lenY unfolding step [OF col] Yproj [symmetric]
      by (intro nth_equalityI) (simp_all add: length_scale nth_scale)
  next
    case False
    have "?Y = col"
      using col lenY list_ex_nonzero_nth [OF False]
      by (intro nth_equalityI) (simp, fastforce)
    then show ?thesis by (simp add: same [OF False col] Yproj [symmetric])
  qed
  have rows': "\<forall>r \<in> set ?P'. length r = m"
    using rows row by (auto simp: map2_map_same length_scale)
  have cols': "\<forall>v \<in> set (cols @ [col]). length v = m"
    using cols col by simp
  have len': "length ?P' = length (cols @ [col])"
    using len by simp
  show ?thesis
    unfolding greville_inv_def prod.case
    using len' cols' rows' sym' fix_old fix_new by auto
qed

lemma greville_step_inv:
  assumes "greville_inv m st" and "length col = m"
  shows "greville_inv m (greville_step m st col)"
    and "fst (greville_step m st col) = fst st @ [col]"
proof -
  obtain cols P where st: "st = (cols, P)" by (cases st)
  have rows: "\<forall>r \<in> set P. length r = m"
    using assms(1) by (simp add: greville_inv_def st)
  let ?d = "map (dot col) P"
  let ?e = "map2 (-) col (combine m ?d cols)"
  let ?row = "if list_ex (\<lambda>t. t \<noteq> 0) ?e then scale (1 / dot ?e ?e) ?e
              else scale (1 / (1 + dot ?d ?d)) (combine m ?d P)"
  have lenY: "length (combine m ?d cols) = m"
    using assms(1) by (simp add: greville_inv_def st length_combine)
  have row: "length ?row = m"
    using assms(2) lenY rows by (simp add: length_scale length_combine)
  have "greville_inv m (cols @ [col], map2 (\<lambda>dj Pj. map2 (-) Pj (scale dj ?row)) ?d P @ [?row])"
    using assms(1) [unfolded st] assms(2) row
    by (rule greville_update_inv) (simp add: assms(2))
  then show "greville_inv m (greville_step m st col)"
    by (simp add: greville_step_def st Let_def)
  show "fst (greville_step m st col) = fst st @ [col]"
    by (simp add: greville_step_def st Let_def)
qed


lemma greville_inv_empty: "greville_inv m ([], [])"
  by (simp add: greville_inv_def proj_def combine_Nil dot_replicate_0 dot_commute [of "replicate m 0"])

lemma greville_foldl:
  "greville_inv m st \<Longrightarrow> \<forall>v \<in> set cs. length v = m \<Longrightarrow>
   greville_inv m (foldl (greville_step m) st cs) \<and>
   fst (foldl (greville_step m) st cs) = fst st @ cs"
proof (induction cs arbitrary: st)
  case Nil
  then show ?case by simp
next
  case (Cons col cs)
  have col: "length col = m" using Cons.prems(2) by simp
  note step = greville_step_inv [OF Cons.prems(1) col]
  from Cons.IH [OF step(1)] Cons.prems(2) show ?case
    by (simp add: step(2))
qed

lemma combine_nth_dot:
  assumes "i < m" "\<forall>v \<in> set vs. length v = m"
  shows "combine m ds vs ! i = dot (map (\<lambda>v. v ! i) vs) ds"
proof -
  have "sum_list (map2 (\<lambda>d v. d * v ! i) ds vs) = dot (map (\<lambda>v. v ! i) vs) ds"
  proof (induction ds arbitrary: vs)
    case Nil
    then show ?case by (simp add: dot_Nil)
  next
    case (Cons d ds)
    then show ?case by (cases vs) (simp_all add: dot_Nil dot_Cons)
  qed
  then show ?thesis using assms by (simp add: combine_nth)
qed

lemma transpose_shape:
  assumes "shape r n al" "al \<noteq> []"
  shows "transpose al = map (column al) [0..<n]"
proof -
  have rect: "\<And>i. i < length al \<Longrightarrow> length (al ! i) = n"
    using assms(1) by (simp add: shape_def list_all_length)
  have "transpose al = map (\<lambda>i. map (\<lambda>j. al ! j ! i) [0..<length al]) [0..<n]"
    using assms(2) rect by (intro transpose_rectangle) simp_all
  moreover have "map (\<lambda>j. al ! j ! i) [0..<length al] = column al i" for i
    by (intro nth_equalityI) (simp_all add: column_def)
  ultimately show ?thesis by simp
qed

lemma pinv_exact_law:
  assumes sh: "shape r n al" and p: "pinv_exact al = Inr ali"
  shows "mat_mul al (mat_mul ali al) = al"
proof (cases "al = []")
  case True
  then show ?thesis by (simp add: mat_mul_def)
next
  case False
  let ?cols = "transpose al"
  have r: "length al = r" and rows: "\<And>i. i < r \<Longrightarrow> length (al ! i) = n"
    using sh by (simp_all add: shape_def list_all_length)
  have cols: "?cols = map (column al) [0..<n]"
    by (rule transpose_shape [OF sh False])
  have lcols: "length ?cols = n" by (simp add: cols)
  have colk: "?cols ! k = column al k" if "k < n" for k
    using that by (simp add: cols)
  have clen: "\<forall>v \<in> set ?cols. length v = r"
    by (auto simp: cols column_def r)
  let ?st = "foldl (greville_step r) ([], []) ?cols"
  from greville_foldl [OF greville_inv_empty clen]
  have "greville_inv r ?st" and "fst ?st = ?cols" by simp_all
  moreover have "snd ?st = ali"
    using p by (simp add: pinv_exact_def r)
  ultimately have inv: "greville_inv r (?cols, ali)"
    by (metis prod.collapse)
  then have lali: "length ali = n"
    and fixd: "\<And>v. v \<in> set ?cols \<Longrightarrow> proj r ?cols ali v = v"
    by (auto simp: greville_inv_def lcols)
  have prod: "mat_mul ali al = map (\<lambda>p. map (dot p) ?cols) ali"
    by (simp add: mat_mul_def)
  have tprod: "transpose (mat_mul ali al) = map (\<lambda>v. map (\<lambda>p. dot p v) ali) ?cols"
  proof (cases "ali = []")
    case True
    then show ?thesis using lali lcols by (simp add: mat_mul_def)
  next
    case False
    have "transpose (mat_mul ali al) =
          map (\<lambda>k. map (\<lambda>j. mat_mul ali al ! j ! k) [0..<length (mat_mul ali al)]) [0..<n]"
      using False by (intro transpose_rectangle) (simp_all add: prod lcols)
    also have "\<dots> = map (\<lambda>v. map (\<lambda>p. dot p v) ali) ?cols"
      by (intro nth_equalityI) (simp_all add: prod lcols lali)
    finally show ?thesis .
  qed
  show ?thesis
  proof (rule nth_equalityI)
    show "length (mat_mul al (mat_mul ali al)) = length al"
      by (simp add: mat_mul_def)
    fix i assume "i < length (mat_mul al (mat_mul ali al))"
    then have i: "i < r" by (simp add: mat_mul_def r)
    have rowi: "map (\<lambda>v. v ! i) ?cols = al ! i"
      using i rows [OF i] by (intro nth_equalityI) (simp_all add: cols column_def r)
    show "mat_mul al (mat_mul ali al) ! i = al ! i"
    proof (rule nth_equalityI)
      show "length (mat_mul al (mat_mul ali al) ! i) = length (al ! i)"
        using i r rows [OF i] by (simp add: mat_mul_def [of al] tprod lcols)
      fix k assume "k < length (mat_mul al (mat_mul ali al) ! i)"
      then have k: "k < n" using i r by (simp add: mat_mul_def [of al] tprod lcols)
      have mem: "?cols ! k \<in> set ?cols" using k lcols by simp
      have "mat_mul al (mat_mul ali al) ! i ! k = dot (al ! i) (map (\<lambda>p. dot p (?cols ! k)) ali)"
        using i r k by (simp add: mat_mul_def [of al] tprod lcols)
      also have "\<dots> = combine r (map (\<lambda>p. dot p (?cols ! k)) ali) ?cols ! i"
        using i clen by (simp add: combine_nth_dot rowi)
      also have "\<dots> = ?cols ! k ! i"
        using fixd [OF mem] by (simp add: proj_def)
      also have "\<dots> = al ! i ! k"
        using i k r by (simp add: colk column_def)
      finally show "mat_mul al (mat_mul ali al) ! i ! k = al ! i ! k" .
    qed
  qed
qed


lemma dot_sum:
  "length u = length v \<Longrightarrow> dot u v = (\<Sum>i = 0..<length u. u ! i * v ! i)"
  by (simp add: dot_def sum_list_sum_nth)

lemma mat_mul_row:
  assumes "shape p q y" "y \<noteq> []" "i < length x"
  shows "mat_mul x y ! i = map (\<lambda>k. dot (x ! i) (column y k)) [0..<q]"
  using assms(3) by (simp add: mat_mul_def transpose_shape [OF assms(1,2)])

lemma mat_mul_assoc_square:
  assumes sh: "shape r n al" and shi: "shape n r ali"
  shows "mat_mul (mat_mul al ali) al = mat_mul al (mat_mul ali al)"
proof (cases "al = [] \<or> ali = []")
  case True
  then show ?thesis
  proof
    assume "al = []"
    then show ?thesis by (simp add: mat_mul_def)
  next
    assume e: "ali = []"
    then have "n = 0" using shi by (simp add: shape_def)
    then have "\<forall>row \<in> set al. row = []"
      using sh by (auto simp: shape_def list_all_iff)
    then have "transpose al = []"
      by (simp add: transpose_empty)
    then show ?thesis by (simp add: mat_mul_def e)
  qed
next
  case False
  then have ne: "al \<noteq> []" "ali \<noteq> []" by simp_all
  have r: "length al = r" and rows: "\<And>i. i < r \<Longrightarrow> length (al ! i) = n"
    using sh by (simp_all add: shape_def list_all_length)
  have n: "length ali = n" and rowsi: "\<And>j. j < n \<Longrightarrow> length (ali ! j) = r"
    using shi by (simp_all add: shape_def list_all_length)
  have shp: "shape r r (mat_mul al ali)"
    by (simp add: shape_def mat_mul_def r list_all_iff transpose_shape [OF shi ne(2)])
  have shq: "shape n n (mat_mul ali al)"
    by (simp add: shape_def mat_mul_def n list_all_iff transpose_shape [OF sh ne(1)])
  have nep: "mat_mul ali al \<noteq> []" using ne by (simp add: mat_mul_def)
  have lq: "length (mat_mul ali al) = n" by (simp add: mat_mul_def n)
  show ?thesis
  proof (rule nth_equalityI)
    show "length (mat_mul (mat_mul al ali) al) = length (mat_mul al (mat_mul ali al))"
      by (simp add: mat_mul_def)
    fix i assume "i < length (mat_mul (mat_mul al ali) al)"
    then have i: "i < r" by (simp add: mat_mul_def r)
    have il: "i < length (mat_mul al ali)" "i < length al" using i by (simp_all add: mat_mul_def r)
    have "dot (mat_mul al ali ! i) (column al k) = dot (al ! i) (column (mat_mul ali al) k)"
      if k: "k < n" for k
    proof -
      have "dot (mat_mul al ali ! i) (column al k) =
            (\<Sum>l = 0..<r. (\<Sum>j = 0..<n. al ! i ! j * ali ! j ! l) * al ! l ! k)"
        using rows [OF i]
        by (simp add: mat_mul_row [OF shi ne(2) il(2)] dot_sum column_def r n)
      also have "\<dots> = (\<Sum>j = 0..<n. al ! i ! j * (\<Sum>l = 0..<r. ali ! j ! l * al ! l ! k))"
        by (simp add: sum_distrib_left sum_distrib_right mult.assoc) (rule sum.swap)
      also have "\<dots> = (\<Sum>j = 0..<n. al ! i ! j * dot (ali ! j) (column al k))"
        using rowsi by (intro sum.cong refl) (simp add: dot_sum column_def r)
      also have "\<dots> = dot (al ! i) (map (\<lambda>j. dot (ali ! j) (column al k)) [0..<n])"
        using rows [OF i] by (simp add: dot_sum)
      also have "map (\<lambda>j. dot (ali ! j) (column al k)) [0..<n] = column (mat_mul ali al) k"
      proof (rule nth_equalityI)
        show "length (map (\<lambda>j. dot (ali ! j) (column al k)) [0..<n]) =
              length (column (mat_mul ali al) k)"
          by (simp add: column_def lq)
        fix j assume "j < length (map (\<lambda>j. dot (ali ! j) (column al k)) [0..<n])"
        then have j: "j < n" by simp
        then have jl: "j < length ali" by (simp add: n)
        show "map (\<lambda>j. dot (ali ! j) (column al k)) [0..<n] ! j = column (mat_mul ali al) k ! j"
          using j k by (simp add: column_def [of "mat_mul ali al"] lq mat_mul_row [OF sh ne(1) jl])
      qed
      finally show ?thesis .
    qed
    then show "mat_mul (mat_mul al ali) al ! i = mat_mul al (mat_mul ali al) ! i"
      by (simp add: mat_mul_row [OF sh ne(1) il(1)] mat_mul_row [OF shq nep il(2)])
  qed
qed


lemma pinv_exact_shape:
  assumes sh: "shape r n al" and ne: "al \<noteq> []" and p: "pinv_exact al = Inr ali"
  shows "shape n r ali"
proof -
  let ?cols = "transpose al"
  have r: "length al = r" using sh by (simp add: shape_def)
  have cols: "?cols = map (column al) [0..<n]"
    by (rule transpose_shape [OF sh ne])
  have clen: "\<forall>v \<in> set ?cols. length v = r"
    by (auto simp: cols column_def r)
  let ?st = "foldl (greville_step r) ([], []) ?cols"
  from greville_foldl [OF greville_inv_empty clen]
  have "greville_inv r ?st" and "fst ?st = ?cols" by simp_all
  moreover have "snd ?st = ali"
    using p by (simp add: pinv_exact_def r)
  ultimately have "greville_inv r (?cols, ali)"
    by (metis prod.collapse)
  then show ?thesis
    by (simp add: greville_inv_def shape_def cols list_all_iff)
qed

text \<open>
  C8. With the library's pseudoinverse as modelled and every propeller supplying
  \<open>k_thrust\<close> and \<open>k_torque\<close>: in every constructed vehicle \<open>alloc\<close> has shape (4, N),
  \<open>alloc_inverse\<close> has shape (N, 4) and \<open>alloc * alloc_inverse * alloc = alloc\<close>, in
  either grouping of the product; and when \<open>angles\<close> and \<open>distances\<close> have the same
  length, at least N, \<open>clockwise\<close> has at least N entries and the inertia matrix has been
  inverted, the vehicle is constructed.
\<close>

theorem C8_pseudoinverse_law:
  assumes "linalg_pinv lib = pinv_exact"
    and "\<forall>p \<in> set (propellers f). k_thrust p \<noteq> None \<and> k_torque p \<noteq> None"
  shows "(VehicleParams_post_init lib f = Inr v \<longrightarrow>
            (\<exists>al ali. alloc v = Some al \<and> alloc_inverse v = Some ali
               \<and> shape 4 (length (propellers f)) al \<and> shape (length (propellers f)) 4 ali
               \<and> mat_mul (mat_mul al ali) al = al \<and> mat_mul al (mat_mul ali al) = al))
       \<and> (length (angles f) = length (distances f)
            \<and> length (propellers f) \<le> length (distances f)
            \<and> length (propellers f) \<le> length (spin_direction f)
            \<and> linalg_inv lib (inertia_matrix f) = Inr mi \<longrightarrow>
            (\<exists>w al ali. VehicleParams_post_init lib f = Inr w
               \<and> alloc w = Some al \<and> alloc_inverse w = Some ali
               \<and> shape 4 (length (propellers f)) al
               \<and> mat_mul (mat_mul al ali) al = al))"
proof -
  have hc: "has_coefficients (propellers f)"
    using assms(2) by (simp add: has_coefficients_iff)
  have law: "shape (length (propellers f)) 4 ali
             \<and> mat_mul (mat_mul al ali) al = al \<and> mat_mul al (mat_mul ali al) = al"
    if am: "allocation_matrix (distances f) (angles f) (spin_direction f) (propellers f) = Inr al"
      and p: "pinv_exact al = Inr ali" for al ali
  proof -
    have sh: "shape 4 (length (propellers f)) al"
      by (rule allocation_matrix_stretched(1) [OF am])
    then have ne: "al \<noteq> []" by (auto simp: shape_def)
    have shi: "shape (length (propellers f)) 4 ali"
      by (rule pinv_exact_shape [OF sh ne p])
    have right: "mat_mul al (mat_mul ali al) = al"
      by (rule pinv_exact_law [OF sh p])
    then show ?thesis
      by (simp add: shi mat_mul_assoc_square [OF sh shi])
  qed
  have part1: "\<exists>al ali. alloc v = Some al \<and> alloc_inverse v = Some ali
               \<and> shape 4 (length (propellers f)) al \<and> shape (length (propellers f)) 4 ali
               \<and> mat_mul (mat_mul al ali) al = al \<and> mat_mul al (mat_mul ali al) = al"
    if ok: "VehicleParams_post_init lib f = Inr v"
  proof -
    from post_init_InrD(3) [OF ok hc] obtain al ali where
      am: "allocation_matrix (distances f) (angles f) (spin_direction f) (propellers f) = Inr al"
      and p: "linalg_pinv lib al = Inr ali"
      and al: "alloc v = Some al" and ali: "alloc_inverse v = Some ali"
      by blast
    from p have p': "pinv_exact al = Inr ali" by (simp add: assms(1))
    show ?thesis
      using al ali allocation_matrix_stretched(1) [OF am] law [OF am p'] by blast
  qed
  have part2: "\<exists>w al ali. VehicleParams_post_init lib f = Inr w
               \<and> alloc w = Some al \<and> alloc_inverse w = Some ali
               \<and> shape 4 (length (propellers f)) al
               \<and> mat_mul (mat_mul al ali) al = al"
    if h: "length (angles f) = length (distances f)
            \<and> length (propellers f) \<le> length (distances f)
            \<and> length (propellers f) \<le> length (spin_direction f)
            \<and> linalg_inv lib (inertia_matrix f) = Inr mi"
  proof -
    from h hc have "\<exists>al. allocation_matrix (distances f) (angles f) (spin_direction f) (propellers f) = Inr al"
      by (intro allocation_matrix_ok) auto
    then obtain al where
      am: "allocation_matrix (distances f) (angles f) (spin_direction f) (propellers f) = Inr al" ..
    obtain ali where p: "pinv_exact al = Inr ali"
      by (simp add: pinv_exact_def)
    have "VehicleParams_post_init lib f =
            Inr (VehicleFields.extend (f\<lparr> clockwise := Some (spin_direction f) \<rparr>)
                   (VehicleParams.fields mi (Some al) (Some ali)))"
      using h hc am p by (simp add: post_init_with_coefficients assms(1))
    then show ?thesis
      using allocation_matrix_stretched(1) [OF am] law [OF am p]
      by (simp add: VehicleFields.defs VehicleParams.defs)
  qed
  show ?thesis using part1 part2 by blast
qed

theorem C8_pseudoinverse_law_witness:
  "VehicleParams_post_init exact_linalg duo = Inr duo_built
   \<and> alloc duo_built = Some [[- 2, - 2], [0, 2 / 5], [2 / 5, 0], [3, - 3]]
   \<and> alloc_inverse duo_built =
        Some [[- (25 / 102), 625 / 46308, 1645 / 46308, 75 / 454],
              [- (25 / 102), 1645 / 46308, 625 / 46308, - (75 / 454)]]
   \<and> mat_mul (mat_mul [[- 2, - 2], [0, 2 / 5], [2 / 5, 0], [3, - 3]]
                 [[- (25 / 102), 625 / 46308, 1645 / 46308, 75 / 454],
                  [- (25 / 102), 1645 / 46308, 625 / 46308, - (75 / 454)]])
        [[- 2, - 2], [0, 2 / 5], [2 / 5, 0], [3, - 3]]
      = [[- 2, - 2], [0, 2 / 5], [2 / 5, 0], [3, - 3]]"
proof -
  have lib: "linalg_pinv exact_linalg = pinv_exact"
    by (simp add: exact_linalg_def)
  have full: "\<forall>p \<in> set (propellers duo). k_thrust p \<noteq> None \<and> k_torque p \<noteq> None"
    by (simp add: duo_def example_defs)
  have al: "alloc duo_built = Some [[- 2, - 2], [0, 2 / 5], [2 / 5, 0], [3, - 3]]"
    and ali: "alloc_inverse duo_built =
        Some [[- (25 / 102), 625 / 46308, 1645 / 46308, 75 / 454],
              [- (25 / 102), 1645 / 46308, 625 / 46308, - (75 / 454)]]"
    by (simp_all add: duo_built_def VehicleFields.defs VehicleParams.defs)
  from C8_pseudoinverse_law [OF lib full, where v = duo_built, THEN conjunct1, rule_format,
      OF duo_post_init]
  show ?thesis
    using duo_post_init by (auto simp: al ali)
qed

subsection \<open>Sequence lengths\<close>

text \<open>
  C5, as stated: sequences of different lengths make the construction raise. It does not:
  one propeller, no angle, two distances and three spin directions construct a vehicle.
\<close>

theorem C5_counterexample:
  "length (propellers lopsided) = 1 \<and> length (angles lopsided) = 0
   \<and> length (distances lopsided) = 2 \<and> clockwise lopsided = Some [1, - 1, 1]
   \<and> VehicleParams_post_init exact_linalg lopsided = Inr lopsided_built"
  by (simp add: lopsided_def lopsided_built_def example_defs eval_defs)

text \<open>
  C5, amended. The construction never compares the lengths of \<open>propellers\<close>, \<open>angles\<close>,
  \<open>distances\<close> and \<open>clockwise\<close>. With the inertia matrix inverted: if some propeller
  lacks a coefficient the construction succeeds whatever the lengths are; if every
  propeller has both, it raises \<open>ValueError\<close> when \<open>distances\<close> and \<open>angles\<close> have
  different lengths neither of which is 1, raises \<open>IndexError\<close> when the broadcast product
  or \<open>clockwise\<close> has fewer entries than there are propellers, and otherwise builds the
  allocation matrix and succeeds if the pseudoinverse routine does. The result is an
  error or a complete object, never a partial one.
\<close>

theorem C5_lengths_not_validated:
  assumes "linalg_inv lib (inertia_matrix f) = Inr mi"
  shows "(\<not> has_coefficients (propellers f) \<longrightarrow>
            VehicleParams_post_init lib f =
              Inr (VehicleFields.extend (f\<lparr> clockwise := Some (spin_direction f) \<rparr>)
                     (VehicleParams.fields mi None None)))
       \<and> (has_coefficients (propellers f) \<and> length (distances f) \<noteq> length (angles f)
            \<and> length (distances f) \<noteq> 1 \<and> length (angles f) \<noteq> 1 \<longrightarrow>
            VehicleParams_post_init lib f = Inl ValueError)
       \<and> (has_coefficients (propellers f)
            \<and> (length (distances f) = length (angles f) \<or> length (distances f) = 1 \<or> length (angles f) = 1)
            \<and> ((if length (distances f) = 1 then length (angles f) else length (distances f))
                   < length (propellers f)
                \<or> length (spin_direction f) < length (propellers f)) \<longrightarrow>
            VehicleParams_post_init lib f = Inl IndexError)
       \<and> (has_coefficients (propellers f)
            \<and> (length (distances f) = length (angles f) \<or> length (distances f) = 1 \<or> length (angles f) = 1)
            \<and> length (propellers f)
                 \<le> (if length (distances f) = 1 then length (angles f) else length (distances f))
            \<and> length (propellers f) \<le> length (spin_direction f) \<longrightarrow>
            (\<exists>al. allocation_matrix (distances f) (angles f) (spin_direction f) (propellers f) = Inr al
               \<and> VehicleParams_post_init lib f =
                   (case linalg_pinv lib al of
                      Inl e \<Rightarrow> Inl e
                    | Inr ali \<Rightarrow>
                        Inr (VehicleFields.extend (f\<lparr> clockwise := Some (spin_direction f) \<rparr>)
                               (VehicleParams.fields mi (Some al) (Some ali))))))"
proof (intro conjI impI)
  assume "\<not> has_coefficients (propellers f)"
  then show "VehicleParams_post_init lib f =
      Inr (VehicleFields.extend (f\<lparr> clockwise := Some (spin_direction f) \<rparr>)
             (VehicleParams.fields mi None None))"
    by (rule post_init_without_coefficients [OF assms])
next
  assume h: "has_coefficients (propellers f) \<and> length (distances f) \<noteq> length (angles f)
            \<and> length (distances f) \<noteq> 1 \<and> length (angles f) \<noteq> 1"
  then have "allocation_matrix (distances f) (angles f) (spin_direction f) (propellers f) = Inl ValueError"
    by (intro allocation_matrix_ValueError) simp_all
  then show "VehicleParams_post_init lib f = Inl ValueError"
    using h by (simp add: post_init_with_coefficients [OF assms])
next
  assume h: "has_coefficients (propellers f)
            \<and> (length (distances f) = length (angles f) \<or> length (distances f) = 1 \<or> length (angles f) = 1)
            \<and> ((if length (distances f) = 1 then length (angles f) else length (distances f))
                   < length (propellers f)
                \<or> length (spin_direction f) < length (propellers f))"
  then have "allocation_matrix (distances f) (angles f) (spin_direction f) (propellers f) = Inl IndexError"
    by (intro allocation_matrix_IndexError) blast+
  then show "VehicleParams_post_init lib f = Inl IndexError"
    using h by (simp add: post_init_with_coefficients [OF assms])
next
  assume h: "has_coefficients (propellers f)
            \<and> (length (distances f) = length (angles f) \<or> length (distances f) = 1 \<or> length (angles f) = 1)
            \<and> length (propellers f)
                 \<le> (if length (distances f) = 1 then length (angles f) else length (distances f))
            \<and> length (propellers f) \<le> length (spin_direction f)"
  then have "\<exists>al. allocation_matrix (distances f) (angles f) (spin_direction f) (propellers f) = Inr al"
    by (intro allocation_matrix_ok) blast+
  then obtain al where
    al: "allocation_matrix (distances f) (angles f) (spin_direction f) (propellers f) = Inr al" ..
  show "\<exists>al. allocation_matrix (distances f) (angles f) (spin_direction f) (propellers f) = Inr al
               \<and> VehicleParams_post_init lib f =
                   (case linalg_pinv lib al of
                      Inl e \<Rightarrow> Inl e
                    | Inr ali \<Rightarrow>
                        Inr (VehicleFields.extend (f\<lparr> clockwise := Some (spin_direction f) \<rparr>)
                               (VehicleParams.fields mi (Some al) (Some ali))))"
    using h al by (simp add: post_init_with_coefficients [OF assms])
qed

theorem C5_lengths_not_validated_witness:
  "VehicleParams_post_init exact_linalg unequal_arrays = Inl ValueError
   \<and> VehicleParams_post_init exact_linalg short_arrays = Inl IndexError
   \<and> (\<exists>w. VehicleParams_post_init exact_linalg long_angles = Inr w)
   \<and> VehicleParams_post_init exact_linalg (vehicle [propeller_bare] [] [1 / 5, 1 / 5]) =
       Inr (VehicleFields.extend
              ((vehicle [propeller_bare] [] [1 / 5, 1 / 5])\<lparr> clockwise := Some [1] \<rparr>)
              (VehicleParams.fields eye3 None None))"
proof -
  have full: "has_coefficients [propeller_full]" "has_coefficients [propeller_full, propeller_full]"
    "has_coefficients [propeller_full, propeller_full, propeller_full]"
    by (simp_all add: has_coefficients_def example_defs)
  have bare: "\<not> has_coefficients [propeller_bare]"
    by (simp add: has_coefficients_def example_defs)
  have a: "VehicleParams_post_init exact_linalg unequal_arrays = Inl ValueError"
    using C5_lengths_not_validated [OF vehicle_inv, of "[propeller_full, propeller_full]" "[0, pi / 2, pi]" "[1 / 5, 1 / 5]"] full
    by (simp add: unequal_arrays_def vehicle_def)
  have b: "VehicleParams_post_init exact_linalg short_arrays = Inl IndexError"
    using C5_lengths_not_validated [OF vehicle_inv, of "[propeller_full, propeller_full, propeller_full]" "[0]" "[1 / 5]"] full
    by (simp add: short_arrays_def vehicle_def)
  have c: "\<exists>w. VehicleParams_post_init exact_linalg long_angles = Inr w"
    using C5_lengths_not_validated [OF vehicle_inv, of "[propeller_full]" "[0, pi / 2]" "[1 / 5]"] full
    by (auto simp: long_angles_def vehicle_def spin_direction_def default_clockwise_length
          exact_linalg_def pinv_exact_def)
  have d: "VehicleParams_post_init exact_linalg (vehicle [propeller_bare] [] [1 / 5, 1 / 5]) =
       Inr (VehicleFields.extend
              ((vehicle [propeller_bare] [] [1 / 5, 1 / 5])\<lparr> clockwise := Some [1] \<rparr>)
              (VehicleParams.fields eye3 None None))"
    using C5_lengths_not_validated [OF vehicle_inv, of "[propeller_bare]" "[]" "[1 / 5, 1 / 5]"] bare
    by (simp add: vehicle_def spin_direction_def default_clockwise_def slice_assign_def np_ones_def)
  show ?thesis using a b c d by blast
qed

text \<open>
  C7, as stated: with a singular inertia matrix the spin-direction default and the
  allocation matrix are still derived. They are not: the inversion comes first and its
  exception ends the construction, here on the zero matrix.
\<close>

theorem C7_counterexample:
  "det3 (inertia_matrix grounded) = 0 \<and> clockwise grounded = None
   \<and> has_coefficients (propellers grounded)
   \<and> VehicleParams_post_init exact_linalg grounded = Inl LinAlgError"
  by (simp add: grounded_def duo_def example_defs VehicleParams_post_init_def exact_linalg_def
        inv3_def det3_def has_coefficients_def)

text \<open>
  C7, amended. The steps run in order and an exception ends the construction: when the
  inversion of the inertia matrix raises, the construction raises the same error and
  derives nothing else. In a constructed vehicle the other two steps are skipped
  independently of each other: \<open>clockwise\<close> is the alternating default exactly when none
  was supplied, and \<open>alloc\<close> is present exactly when every propeller has both
  coefficients.
\<close>

theorem C7_steps_in_order:
  "(linalg_inv lib (inertia_matrix f) = Inl e \<longrightarrow> VehicleParams_post_init lib f = Inl e)
   \<and> (VehicleParams_post_init lib f = Inr v \<longrightarrow>
        (clockwise f = None \<longrightarrow> clockwise v = Some (default_clockwise (length (propellers f))))
        \<and> (\<forall>given. clockwise f = Some given \<longrightarrow> clockwise v = Some given)
        \<and> ((alloc v \<noteq> None) = has_coefficients (propellers f)))"
proof (intro conjI impI allI)
  assume "linalg_inv lib (inertia_matrix f) = Inl e"
  then show "VehicleParams_post_init lib f = Inl e" by (rule post_init_inv_error)
next
  assume ok: "VehicleParams_post_init lib f = Inr v" and "clockwise f = None"
  then show "clockwise v = Some (default_clockwise (length (propellers f)))"
    using post_init_InrD(2) [OF ok] by (simp add: spin_direction_def)
next
  fix given
  assume ok: "VehicleParams_post_init lib f = Inr v" and "clockwise f = Some given"
  then show "clockwise v = Some given"
    using post_init_InrD(2) [OF ok] by (simp add: spin_direction_def)
next
  assume ok: "VehicleParams_post_init lib f = Inr v"
  show "(alloc v \<noteq> None) = has_coefficients (propellers f)"
    using post_init_InrD(3,4) [OF ok] by (cases "has_coefficients (propellers f)") auto
qed

theorem C7_steps_in_order_witness:
  "VehicleParams_post_init exact_linalg grounded = Inl LinAlgError
   \<and> clockwise duo_built = Some [1, - 1] \<and> alloc duo_built \<noteq> None
   \<and> clockwise lopsided_built = Some [1, - 1, 1] \<and> alloc lopsided_built = None"
proof -
  have inv: "linalg_inv exact_linalg (inertia_matrix grounded) = Inl LinAlgError"
    by (simp add: grounded_def exact_linalg_def inv3_def det3_def)
  have lop: "VehicleParams_post_init exact_linalg lopsided = Inr lopsided_built"
    by (simp add: lopsided_def lopsided_built_def example_defs eval_defs)
  have a: "VehicleParams_post_init exact_linalg grounded = Inl LinAlgError"
    using C7_steps_in_order [of exact_linalg grounded LinAlgError duo_built] inv by blast
  have b: "clockwise duo_built = Some [1, - 1] \<and> alloc duo_built \<noteq> None"
    using C7_steps_in_order [of exact_linalg duo LinAlgError duo_built] duo_post_init
    by (simp add: duo_def example_defs has_coefficients_def default_clockwise_def
          slice_assign_def np_ones_def)
  have c: "clockwise lopsided_built = Some [1, - 1, 1] \<and> alloc lopsided_built = None"
    using C7_steps_in_order [of exact_linalg lopsided LinAlgError lopsided_built] lop
    by (simp add: lopsided_def example_defs has_coefficients_def)
  show ?thesis using a b c by blast
qed

end
